theory Spec2Isabelle
  imports Main "HOL-Library.Word" "HOL-Library.AList" "HOL-Library.Multiset"
begin

section \<open>Values shared by the ingestion writer\<close>

text \<open>
  Go's fixed-width integers are machine words; signed comparisons are \<open><s\<close>.
  Go's \<open>int\<close> is 64 bits wide on the platforms horizon runs on.
\<close>

type_synonym int64 = "64 word"
type_synonym int32 = "32 word"
type_synonym uint32 = "32 word"
type_synonym uint64 = "64 word"

text \<open>
  Errors are values. \<open>Error msg\<close> is \<open>errors.New\<close>/\<open>errors.Errorf\<close>,
  \<open>Wrap err msg\<close> is \<open>errors.Wrap(err, msg)\<close>, and \<open>Panic msg\<close> stands for
  a Go \<open>panic(msg)\<close> that unwinds the call.
\<close>

datatype error = Error string | Wrap error string | Panic string

text \<open>\<open>time.Time\<close> as seconds and nanoseconds since the epoch, in UTC.\<close>

datatype Time = Unix int64 int64

text \<open>\<open>null.String\<close>: a string and its validity flag.\<close>

datatype null_String = NewString string bool

text \<open>
  A bound parameter of a statement: the dynamic values (\<open>interface{}\<close>) that the rows
  hand to the statement builder.
\<close>

datatype param =
    PInt64 int64
  | PInt32 int32
  | PUint32 uint32
  | PUint64 uint64
  | PInt int64
  | PString string
  | PBytes string
  | PBool bool
  | PNullString null_String
  | PTime Time
  | PNil
  | PExpr string string
  | PStringArray "string list"

section \<open>Table names\<close>

type_synonym TableName = string

definition EffectsTableName :: TableName where
  "EffectsTableName = ''history_effects''"

definition LedgersTableName :: TableName where
  "LedgersTableName = ''history_ledgers''"

definition OperationParticipantsTableName :: TableName where
  "OperationParticipantsTableName = ''history_operation_participants''"

definition OperationsTableName :: TableName where
  "OperationsTableName = ''history_operations''"

definition TradesTableName :: TableName where
  "TradesTableName = ''history_trades''"

definition TransactionParticipantsTableName :: TableName where
  "TransactionParticipantsTableName = ''history_transaction_participants''"

definition TransactionsTableName :: TableName where
  "TransactionsTableName = ''history_transactions''"

definition CurrentVersion :: int32 where
  "CurrentVersion = 11"

section \<open>The statement builder\<close>

text \<open>
  \<open>sq.InsertBuilder\<close>: the target table, the column list and the value tuples added so
  far. \<open>Insert\<close> starts a statement, \<open>Columns\<close> appends column names and \<open>Values\<close>
  appends one tuple. Every value of a tuple is sent as one bound parameter, so the
  number of bound parameters of a statement is the total length of its tuples.
\<close>

record InsertBuilder =
  into :: string
  columns :: "string list"
  tuples :: "param list list"

definition Insert :: "string \<Rightarrow> InsertBuilder" where
  "Insert table = \<lparr>into = table, columns = [], tuples = []\<rparr>"

definition Columns :: "string list \<Rightarrow> InsertBuilder \<Rightarrow> InsertBuilder" where
  "Columns cs b = b\<lparr>columns := columns b @ cs\<rparr>"

definition Values :: "param list \<Rightarrow> InsertBuilder \<Rightarrow> InsertBuilder" where
  "Values ps b = b\<lparr>tuples := tuples b @ [ps]\<rparr>"

definition bound_parameters :: "InsertBuilder \<Rightarrow> nat" where
  "bound_parameters b = sum_list (map length (tuples b))"

section \<open>The destination store\<close>

text \<open>
  The store session (\<open>db.Session\<close>) and the account and asset services
  (\<open>history.Q\<close>) live outside the two files of the writer. The writer only calls
  them, so the session is modelled by what the writer can observe: the log of the calls
  issued, each with its outcome, the account and asset tables that the resolution
  services read and extend, and a fault oracle that decides, from the log so far and the
  call, whether the store rejects the call.
\<close>

record Account =
  acc_ID :: int64
  acc_Address :: string

datatype Asset =
    AssetNative
  | AssetCreditAlphanum4 string string
  | AssetCreditAlphanum12 string string

datatype db_call =
    CallBegin
  | CallCommit
  | CallRollback
  | CallExec InsertBuilder
  | CallDeleteRange int64 int64 string string
  | CallAccountsByAddresses "string list"
  | CallCreateAccounts "string list"
  | CallGetCreateAssetID Asset

record db_Session =
  calls :: "(db_call \<times> error option) list"
  fault :: "(db_call \<times> error option) list \<Rightarrow> db_call \<Rightarrow> error option"
  history_accounts :: "Account list"
  next_account_id :: int64
  history_assets :: "(Asset \<times> int64) list"
  next_asset_id :: int64

text \<open>
  Modelled from the spec: \<open>Begin\<close>, \<open>Commit\<close>, \<open>Rollback\<close> and \<open>Exec\<close> of the
  session are missing from the sources. Each is one call against the store, which the
  store accepts or rejects; \<open>issue\<close> asks the fault oracle and appends the call and
  its outcome to the log.
\<close>

definition issue :: "db_call \<Rightarrow> db_Session \<Rightarrow> error option \<times> db_Session" where
  "issue c s = (let r = fault s (calls s) c in (r, s\<lparr>calls := calls s @ [(c, r)]\<rparr>))"

definition Begin :: "db_Session \<Rightarrow> error option \<times> db_Session" where
  "Begin s = issue CallBegin s"

definition Commit :: "db_Session \<Rightarrow> error option \<times> db_Session" where
  "Commit s = issue CallCommit s"

definition Rollback_db :: "db_Session \<Rightarrow> error option \<times> db_Session" where
  "Rollback_db s = issue CallRollback s"

definition Exec :: "InsertBuilder \<Rightarrow> db_Session \<Rightarrow> error option \<times> db_Session" where
  "Exec b s = issue (CallExec b) s"

text \<open>
  Modelled from the spec: \<open>DeleteRange\<close> of the session is missing from the sources. It is
  the range delete of the rows of \<open>table\<close> whose column \<open>idCol\<close> lies in the half-open
  interval from \<open>start\<close> (included) to \<open>end\<close> (excluded); the model records the call.
\<close>

definition DeleteRange ::
  "int64 \<Rightarrow> int64 \<Rightarrow> string \<Rightarrow> string \<Rightarrow> db_Session \<Rightarrow> error option \<times> db_Session" where
  "DeleteRange start end' table idCol s = issue (CallDeleteRange start end' table idCol) s"

text \<open>
  Modelled from the spec: \<open>AccountsByAddresses\<close> is missing from the sources. It queries
  the store for the existing account records matching the address set.
\<close>

definition AccountsByAddresses ::
  "string list \<Rightarrow> db_Session \<Rightarrow> (error + Account list) \<times> db_Session" where
  "AccountsByAddresses addresses s =
     (case issue (CallAccountsByAddresses addresses) s of
        (Some err, s') \<Rightarrow> (Inl err, s')
      | (None, s') \<Rightarrow>
          (Inr (filter (\<lambda>a. acc_Address a \<in> set addresses) (history_accounts s)), s'))"

text \<open>
  Modelled from the spec: \<open>CreateAccounts\<close> is missing from the sources. Each given
  address is inserted as a new account record, allocating a fresh identifier from the
  store; the created records are returned.
\<close>

definition CreateAccounts ::
  "string list \<Rightarrow> db_Session \<Rightarrow> (error + Account list) \<times> db_Session" where
  "CreateAccounts addresses s =
     (case issue (CallCreateAccounts addresses) s of
        (Some err, s') \<Rightarrow> (Inl err, s')
      | (None, s') \<Rightarrow>
          (let created = map (\<lambda>(i, a). \<lparr>acc_ID = next_account_id s + of_nat i, acc_Address = a\<rparr>)
                             (enumerate 0 addresses)
           in (Inr created,
               s'\<lparr>history_accounts := history_accounts s @ created,
                  next_account_id := next_account_id s + of_nat (length addresses)\<rparr>)))"

text \<open>
  Modelled from the spec: \<open>GetCreateAssetID\<close> is missing from the sources. It is the
  lookup-or-create service keyed by asset descriptor: the identifier of the asset's
  record when there is one, otherwise a fresh identifier under which the asset is
  recorded.
\<close>

definition GetCreateAssetID :: "Asset \<Rightarrow> db_Session \<Rightarrow> (error + int64) \<times> db_Session" where
  "GetCreateAssetID asset s =
     (case issue (CallGetCreateAssetID asset) s of
        (Some err, s') \<Rightarrow> (Inl err, s')
      | (None, s') \<Rightarrow>
          (case map_of (history_assets s) asset of
             Some i \<Rightarrow> (Inr i, s')
           | None \<Rightarrow>
               (Inr (next_asset_id s),
                s'\<lparr>history_assets := history_assets s @ [(asset, next_asset_id s)],
                   next_asset_id := next_asset_id s + 1\<rparr>)))"

section \<open>Rows\<close>

text \<open>
  One record per row struct of the writer, with the fields in the order of the struct.
  Fields are prefixed with the variant, since several structs share field names.
\<close>

record effectRow =
  eff_AccountID :: int64
  eff_OperationID :: int64
  eff_Order :: int64
  eff_Type :: int64
  eff_Details :: string
  eff_Address :: string

record operationRow =
  op_ID :: int64
  op_TxID :: int64
  op_Order :: int32
  op_Source :: string
  op_Type :: int32
  op_Details :: string

record operationParticipantRow =
  opp_OperationID :: int64
  opp_AccountID :: int64
  opp_Address :: string

record ledgerRow =
  led_ImporterVersion :: int32
  led_ID :: int64
  led_Sequence :: uint32
  led_LedgerHash :: string
  led_PreviousLedgerHash :: null_String
  led_TotalCoins :: int64
  led_FeePool :: int64
  led_BaseFee :: int32
  led_BaseReserve :: int32
  led_MaxTxSetSize :: int32
  led_ClosedAt :: Time
  led_CreatedAt :: Time
  led_UpdatedAt :: Time
  led_TransactionCount :: int32
  led_OperationCount :: int32
  led_ProtocolVersion :: int32
  led_LedgerHeaderXDR :: null_String

record tradeRow =
  trd_OperationID :: int64
  trd_Order :: int32
  trd_LedgerCloseAt :: Time
  trd_OfferID :: uint64
  trd_BaseAccountID :: int64
  trd_BaseAssetID :: int64
  trd_BaseAmount :: int64
  trd_CounterAccountID :: int64
  trd_CounterAssetID :: int64
  trd_CounterAmount :: int64
  trd_BaseIsSeller :: bool
  trd_BaseAddress :: string
  trd_CounterAddress :: string

record transactionRow =
  txn_ID :: int64
  txn_TransactionHash :: string
  txn_LedgerSequence :: int32
  txn_ApplicationOrder :: int32
  txn_Account :: string
  txn_AccountSequence :: int64
  txn_FeePaid :: int32
  txn_OperationCount :: int64
  txn_TxEnvelope :: string
  txn_TxResult :: string
  txn_TxMeta :: string
  txn_TxFeeMeta :: string
  txn_SignaturesString :: param
  txn_TimeBounds :: param
  txn_MemoType :: string
  txn_Memo :: null_String
  txn_CreatedAt :: Time
  txn_UpdatedAt :: Time

record transactionParticipantRow =
  txp_TransactionID :: int64
  txp_AccountID :: int64
  txp_Address :: string

text \<open>The \<open>row\<close> interface is implemented by exactly these seven structs.\<close>

datatype row =
    EffectRow effectRow
  | OperationRow operationRow
  | OperationParticipantRow operationParticipantRow
  | LedgerRow ledgerRow
  | TradeRow tradeRow
  | TransactionRow transactionRow
  | TransactionParticipantRow transactionParticipantRow

text \<open>
  Modelled from the spec: the four methods of the row structs are missing from the
  sources. \<open>GetTableName\<close> reports the table the row targets.
\<close>

fun GetTableName :: "row \<Rightarrow> TableName" where
  "GetTableName (EffectRow r) = EffectsTableName"
| "GetTableName (OperationRow r) = OperationsTableName"
| "GetTableName (OperationParticipantRow r) = OperationParticipantsTableName"
| "GetTableName (LedgerRow r) = LedgersTableName"
| "GetTableName (TradeRow r) = TradesTableName"
| "GetTableName (TransactionRow r) = TransactionsTableName"
| "GetTableName (TransactionParticipantRow r) = TransactionParticipantsTableName"

text \<open>
  Modelled from the spec: \<open>GetParams\<close> produces the ordered parameter tuple matching the
  column order of the target table; helper fields (the addresses) are not part of it.
\<close>

fun GetParams :: "row \<Rightarrow> param list" where
  "GetParams (EffectRow r) =
     [PInt64 (eff_AccountID r), PInt64 (eff_OperationID r), PInt (eff_Order r),
      PInt (eff_Type r), PBytes (eff_Details r)]"
| "GetParams (OperationRow r) =
     [PInt64 (op_ID r), PInt64 (op_TxID r), PInt32 (op_Order r), PString (op_Source r),
      PInt32 (op_Type r), PBytes (op_Details r)]"
| "GetParams (OperationParticipantRow r) =
     [PInt64 (opp_OperationID r), PInt64 (opp_AccountID r)]"
| "GetParams (LedgerRow r) =
     [PInt32 (led_ImporterVersion r), PInt64 (led_ID r), PUint32 (led_Sequence r),
      PString (led_LedgerHash r), PNullString (led_PreviousLedgerHash r),
      PInt64 (led_TotalCoins r), PInt64 (led_FeePool r), PInt32 (led_BaseFee r),
      PInt32 (led_BaseReserve r), PInt32 (led_MaxTxSetSize r), PTime (led_ClosedAt r),
      PTime (led_CreatedAt r), PTime (led_UpdatedAt r), PInt32 (led_TransactionCount r),
      PInt32 (led_OperationCount r), PInt32 (led_ProtocolVersion r),
      PNullString (led_LedgerHeaderXDR r)]"
| "GetParams (TradeRow r) =
     [PInt64 (trd_OperationID r), PInt32 (trd_Order r), PTime (trd_LedgerCloseAt r),
      PUint64 (trd_OfferID r), PInt64 (trd_BaseAccountID r), PInt64 (trd_BaseAssetID r),
      PInt64 (trd_BaseAmount r), PInt64 (trd_CounterAccountID r),
      PInt64 (trd_CounterAssetID r), PInt64 (trd_CounterAmount r),
      PBool (trd_BaseIsSeller r)]"
| "GetParams (TransactionRow r) =
     [PInt64 (txn_ID r), PString (txn_TransactionHash r), PInt32 (txn_LedgerSequence r),
      PInt32 (txn_ApplicationOrder r), PString (txn_Account r),
      PInt64 (txn_AccountSequence r), PInt32 (txn_FeePaid r), PInt (txn_OperationCount r),
      PString (txn_TxEnvelope r), PString (txn_TxResult r), PString (txn_TxMeta r),
      PString (txn_TxFeeMeta r), txn_SignaturesString r, txn_TimeBounds r,
      PString (txn_MemoType r), PNullString (txn_Memo r), PTime (txn_CreatedAt r),
      PTime (txn_UpdatedAt r)]"
| "GetParams (TransactionParticipantRow r) =
     [PInt64 (txp_TransactionID r), PInt64 (txp_AccountID r)]"

text \<open>
  Modelled from the spec: \<open>GetAddresses\<close> reports the account addresses the row
  references, which are the address helper fields of the struct.
\<close>

fun GetAddresses :: "row \<Rightarrow> string list" where
  "GetAddresses (EffectRow r) = [eff_Address r]"
| "GetAddresses (OperationRow r) = []"
| "GetAddresses (OperationParticipantRow r) = [opp_Address r]"
| "GetAddresses (LedgerRow r) = []"
| "GetAddresses (TradeRow r) = [trd_BaseAddress r, trd_CounterAddress r]"
| "GetAddresses (TransactionRow r) = []"
| "GetAddresses (TransactionParticipantRow r) = [txp_Address r]"

text \<open>
  A Go map from addresses to identifiers, kept as an association list in the order in
  which the keys were first stored. Reading a missing key gives the zero value.
\<close>

type_synonym account_ids = "(string \<times> int64) list"

definition lookup_id :: "account_ids \<Rightarrow> string \<Rightarrow> int64" where
  "lookup_id accounts address = (case map_of accounts address of None \<Rightarrow> 0 | Some i \<Rightarrow> i)"

text \<open>
  Modelled from the spec: \<open>UpdateAccountIDs\<close> of a row accepts the completed
  address-to-identifier map and rewrites the row's address references into identifiers.
\<close>

fun row_UpdateAccountIDs :: "account_ids \<Rightarrow> row \<Rightarrow> row" where
  "row_UpdateAccountIDs accounts (EffectRow r) =
     EffectRow (r\<lparr>eff_AccountID := lookup_id accounts (eff_Address r)\<rparr>)"
| "row_UpdateAccountIDs accounts (OperationRow r) = OperationRow r"
| "row_UpdateAccountIDs accounts (OperationParticipantRow r) =
     OperationParticipantRow (r\<lparr>opp_AccountID := lookup_id accounts (opp_Address r)\<rparr>)"
| "row_UpdateAccountIDs accounts (LedgerRow r) = LedgerRow r"
| "row_UpdateAccountIDs accounts (TradeRow r) =
     TradeRow (r\<lparr>trd_BaseAccountID := lookup_id accounts (trd_BaseAddress r),
                 trd_CounterAccountID := lookup_id accounts (trd_CounterAddress r)\<rparr>)"
| "row_UpdateAccountIDs accounts (TransactionRow r) = TransactionRow r"
| "row_UpdateAccountIDs accounts (TransactionParticipantRow r) =
     TransactionParticipantRow (r\<lparr>txp_AccountID := lookup_id accounts (txp_Address r)\<rparr>)"

section \<open>The ingestion writer\<close>

record Ingestion =
  DB :: db_Session
  builders :: "TableName \<rightharpoonup> InsertBuilder"
  rowsToInsert :: "row list"
  assetStats :: InsertBuilder

subsection \<open>Clear\<close>

definition clear :: "int64 \<Rightarrow> int64 \<Rightarrow> string \<Rightarrow> string \<Rightarrow> Ingestion \<Rightarrow> error option \<times> Ingestion" where
  "clear start end' table idCol ingest =
     (case DeleteRange start end' table idCol (DB ingest) of
        (err, db) \<Rightarrow> (err, ingest\<lparr>DB := db\<rparr>))"

definition Clear :: "int64 \<Rightarrow> int64 \<Rightarrow> Ingestion \<Rightarrow> error option \<times> Ingestion" where
  "Clear start end' ingest =
     (case clear start end' ''history_effects'' ''history_operation_id'' ingest of
        (Some err, i1) \<Rightarrow> (Some err, i1)
      | (None, i1) \<Rightarrow>
     (case clear start end' ''history_operation_participants'' ''history_operation_id'' i1 of
        (Some err, i2) \<Rightarrow> (Some err, i2)
      | (None, i2) \<Rightarrow>
     (case clear start end' ''history_operations'' ''id'' i2 of
        (Some err, i3) \<Rightarrow> (Some err, i3)
      | (None, i3) \<Rightarrow>
     (case clear start end' ''history_transaction_participants'' ''history_transaction_id'' i3 of
        (Some err, i4) \<Rightarrow> (Some err, i4)
      | (None, i4) \<Rightarrow>
     (case clear start end' ''history_transactions'' ''id'' i4 of
        (Some err, i5) \<Rightarrow> (Some err, i5)
      | (None, i5) \<Rightarrow>
     (case clear start end' ''history_ledgers'' ''id'' i5 of
        (Some err, i6) \<Rightarrow> (Some err, i6)
      | (None, i6) \<Rightarrow>
     (case clear start end' ''history_trades'' ''history_operation_id'' i6 of
        (Some err, i7) \<Rightarrow> (Some err, i7)
      | (None, i7) \<Rightarrow>
     (case clear start end' ''asset_stats'' ''id'' i7 of
        (Some err, i8) \<Rightarrow> (Some err, i8)
      | (None, i8) \<Rightarrow> (None, i8)))))))))"

definition ClearAll :: "Ingestion \<Rightarrow> error option \<times> Ingestion" where
  "ClearAll ingest = Clear 0 9223372036854775807 ingest"

subsection \<open>Builders, Start, commit\<close>

definition createOperationsInsertBuilder :: "Ingestion \<Rightarrow> Ingestion" where
  "createOperationsInsertBuilder ingest =
     ingest\<lparr>builders := (builders ingest)(OperationsTableName \<mapsto>
       Columns [''id'', ''transaction_id'', ''application_order'', ''source_account'',
                ''type'', ''details'']
         (Insert OperationsTableName))\<rparr>"

definition createOperationParticipantsInsertBuilder :: "Ingestion \<Rightarrow> Ingestion" where
  "createOperationParticipantsInsertBuilder ingest =
     ingest\<lparr>builders := (builders ingest)(OperationParticipantsTableName \<mapsto>
       Columns [''history_operation_id'', ''history_account_id'']
         (Insert OperationParticipantsTableName))\<rparr>"

definition createTransactionParticipantsInsertBuilder :: "Ingestion \<Rightarrow> Ingestion" where
  "createTransactionParticipantsInsertBuilder ingest =
     ingest\<lparr>builders := (builders ingest)(TransactionParticipantsTableName \<mapsto>
       Columns [''history_transaction_id'', ''history_account_id'']
         (Insert TransactionParticipantsTableName))\<rparr>"

definition createEffectsInsertBuilder :: "Ingestion \<Rightarrow> Ingestion" where
  "createEffectsInsertBuilder ingest =
     ingest\<lparr>builders := (builders ingest)(EffectsTableName \<mapsto>
       Columns [''history_account_id'', ''history_operation_id'', ''\"order\"'', ''type'',
                ''details'']
         (Insert EffectsTableName))\<rparr>"

definition createTradesInsertBuilder :: "Ingestion \<Rightarrow> Ingestion" where
  "createTradesInsertBuilder ingest =
     ingest\<lparr>builders := (builders ingest)(TradesTableName \<mapsto>
       Columns [''history_operation_id'', ''\"order\"'', ''ledger_closed_at'', ''offer_id'',
                ''base_account_id'', ''base_asset_id'', ''base_amount'',
                ''counter_account_id'', ''counter_asset_id'', ''counter_amount'',
                ''base_is_seller'']
         (Insert TradesTableName))\<rparr>"

definition createLedgersInsertBuilder :: "Ingestion \<Rightarrow> Ingestion" where
  "createLedgersInsertBuilder ingest =
     ingest\<lparr>builders := (builders ingest)(LedgersTableName \<mapsto>
       Columns [''importer_version'', ''id'', ''sequence'', ''ledger_hash'',
                ''previous_ledger_hash'', ''total_coins'', ''fee_pool'', ''base_fee'',
                ''base_reserve'', ''max_tx_set_size'', ''closed_at'', ''created_at'',
                ''updated_at'', ''transaction_count'', ''operation_count'',
                ''protocol_version'', ''ledger_header'']
         (Insert ''history_ledgers''))\<rparr>"

definition createTransactionsInsertBuilder :: "Ingestion \<Rightarrow> Ingestion" where
  "createTransactionsInsertBuilder ingest =
     ingest\<lparr>builders := (builders ingest)(TransactionsTableName \<mapsto>
       Columns [''id'', ''transaction_hash'', ''ledger_sequence'', ''application_order'',
                ''account'', ''account_sequence'', ''fee_paid'', ''operation_count'',
                ''tx_envelope'', ''tx_result'', ''tx_meta'', ''tx_fee_meta'', ''signatures'',
                ''time_bounds'', ''memo_type'', ''memo'', ''created_at'', ''updated_at'']
         (Insert ''history_transactions''))\<rparr>"

text \<open>The \<open>default\<close> branch of the switch panics; the panic is the error returned.\<close>

definition createInsertBuilderByTableName :: "TableName \<Rightarrow> Ingestion \<Rightarrow> error option \<times> Ingestion" where
  "createInsertBuilderByTableName name ingest =
     (if name = OperationsTableName then (None, createOperationsInsertBuilder ingest)
      else if name = EffectsTableName then (None, createEffectsInsertBuilder ingest)
      else if name = LedgersTableName then (None, createLedgersInsertBuilder ingest)
      else if name = TradesTableName then (None, createTradesInsertBuilder ingest)
      else if name = OperationParticipantsTableName
        then (None, createOperationParticipantsInsertBuilder ingest)
      else if name = TransactionsTableName then (None, createTransactionsInsertBuilder ingest)
      else if name = TransactionParticipantsTableName
        then (None, createTransactionParticipantsInsertBuilder ingest)
      else (Some (Panic ''Invalid table name''), ingest))"

definition createInsertBuilders :: "Ingestion \<Rightarrow> Ingestion" where
  "createInsertBuilders ingest =
     (let i0 = ingest\<lparr>builders := Map.empty\<rparr>;
          i1 = createEffectsInsertBuilder i0;
          i2 = createLedgersInsertBuilder i1;
          i3 = createOperationParticipantsInsertBuilder i2;
          i4 = createOperationsInsertBuilder i3;
          i5 = createTradesInsertBuilder i4;
          i6 = createTransactionParticipantsInsertBuilder i5;
          i7 = createTransactionsInsertBuilder i6
      in i7\<lparr>assetStats :=
            Columns [''id'', ''amount'', ''num_accounts'', ''flags'', ''toml'']
              (Insert ''asset_stats'')\<rparr>)"

definition commit :: "Ingestion \<Rightarrow> error option \<times> Ingestion" where
  "commit ingest =
     (case Commit (DB ingest) of
        (Some err, db) \<Rightarrow> (Some err, ingest\<lparr>DB := db\<rparr>)
      | (None, db) \<Rightarrow> (None, ingest\<lparr>DB := db\<rparr>))"

definition Close :: "Ingestion \<Rightarrow> error option \<times> Ingestion" where
  "Close ingest = commit ingest"

definition Rollback :: "Ingestion \<Rightarrow> error option \<times> Ingestion" where
  "Rollback ingest = (case Rollback_db (DB ingest) of (err, db) \<Rightarrow> (err, ingest\<lparr>DB := db\<rparr>))"

definition Start :: "Ingestion \<Rightarrow> error option \<times> Ingestion" where
  "Start ingest =
     (case Begin (DB ingest) of
        (Some err, db) \<Rightarrow> (Some err, ingest\<lparr>DB := db\<rparr>)
      | (None, db) \<Rightarrow> (None, (createInsertBuilders (ingest\<lparr>DB := db\<rparr>))\<lparr>rowsToInsert := []\<rparr>))"

subsection \<open>Emitters\<close>

text \<open>
  \<open>xdr.AccountId\<close> with the address that its \<open>Address\<close> method renders, and the
  fields of \<open>xdr.ClaimOfferAtom\<close> that \<open>Trade\<close> reads.
\<close>

datatype AccountId = AccountId string

fun Address :: "AccountId \<Rightarrow> string" where
  "Address (AccountId a) = a"

record ClaimOfferAtom =
  SellerId :: AccountId
  OfferId :: uint64
  AssetSold :: Asset
  AmountSold :: int64
  AssetBought :: Asset
  AmountBought :: int64

text \<open>
  \<open>json.Marshal\<close> is a parameter of the two emitters that serialize a details payload:
  it returns the encoding or the encoding error.
\<close>

definition Effect ::
  "('d \<Rightarrow> error + string) \<Rightarrow> string \<Rightarrow> int64 \<Rightarrow> int64 \<Rightarrow> int64 \<Rightarrow> 'd \<Rightarrow> Ingestion
     \<Rightarrow> error option \<times> Ingestion" where
  "Effect json_Marshal address opid order' typ details ingest =
     (case json_Marshal details of
        Inl err \<Rightarrow> (Some err, ingest)
      | Inr djson \<Rightarrow>
          (let effect = \<lparr>eff_AccountID = 0, eff_OperationID = opid, eff_Order = order',
                         eff_Type = typ, eff_Details = djson, eff_Address = address\<rparr>
           in (None, ingest\<lparr>rowsToInsert := rowsToInsert ingest @ [EffectRow effect]\<rparr>)))"

definition Operation ::
  "('d \<Rightarrow> error + string) \<Rightarrow> int64 \<Rightarrow> int64 \<Rightarrow> int32 \<Rightarrow> AccountId \<Rightarrow> int32 \<Rightarrow> 'd \<Rightarrow> Ingestion
     \<Rightarrow> error option \<times> Ingestion" where
  "Operation json_Marshal id' txid order' source typ details ingest =
     (case json_Marshal details of
        Inl err \<Rightarrow> (Some err, ingest)
      | Inr djson \<Rightarrow>
          (let operation = \<lparr>op_ID = id', op_TxID = txid, op_Order = order',
                            op_Source = Address source, op_Type = typ, op_Details = djson\<rparr>
           in (None, ingest\<lparr>rowsToInsert := rowsToInsert ingest @ [OperationRow operation]\<rparr>)))"

definition OperationParticipants :: "int64 \<Rightarrow> AccountId list \<Rightarrow> Ingestion \<Rightarrow> error option \<times> Ingestion" where
  "OperationParticipants op aids ingest =
     (None,
      fold (\<lambda>aid ing.
              (let operationParticipant =
                     \<lparr>opp_OperationID = op, opp_AccountID = 0, opp_Address = Address aid\<rparr>
               in ing\<lparr>rowsToInsert :=
                        rowsToInsert ing @ [OperationParticipantRow operationParticipant]\<rparr>))
           aids ingest)"

definition TransactionParticipants :: "int64 \<Rightarrow> AccountId list \<Rightarrow> Ingestion \<Rightarrow> error option \<times> Ingestion" where
  "TransactionParticipants tx aids ingest =
     (None,
      fold (\<lambda>aid ing.
              (let transactionParticipant =
                     \<lparr>txp_TransactionID = tx, txp_AccountID = 0, txp_Address = Address aid\<rparr>
               in ing\<lparr>rowsToInsert :=
                        rowsToInsert ing @ [TransactionParticipantRow transactionParticipant]\<rparr>))
           aids ingest)"

definition Trade ::
  "int64 \<Rightarrow> int32 \<Rightarrow> AccountId \<Rightarrow> ClaimOfferAtom \<Rightarrow> int64 \<Rightarrow> Ingestion \<Rightarrow> error option \<times> Ingestion" where
  "Trade opid order' buyer trade ledgerClosedAt ingest =
     (let sellerAddress = Address (SellerId trade);
          buyerAddress = Address buyer
      in case GetCreateAssetID (AssetSold trade) (DB ingest) of
           (Inl err, db1) \<Rightarrow>
             (Some (Wrap err ''failed to get sold asset id''), ingest\<lparr>DB := db1\<rparr>)
         | (Inr soldAssetId, db1) \<Rightarrow>
        (case GetCreateAssetID (AssetBought trade) db1 of
           (Inl err, db2) \<Rightarrow>
             (Some (Wrap err ''failed to get bought asset id''), ingest\<lparr>DB := db2\<rparr>)
         | (Inr boughtAssetId, db2) \<Rightarrow>
             (let (baseAddress, baseAssetId, baseAmount,
                   counterAddress, counterAssetId, counterAmount) =
                    (if soldAssetId <s boughtAssetId
                     then (sellerAddress, soldAssetId, AmountSold trade,
                           buyerAddress, boughtAssetId, AmountBought trade)
                     else (buyerAddress, boughtAssetId, AmountBought trade,
                           sellerAddress, soldAssetId, AmountSold trade));
                  tradeR = \<lparr>trd_OperationID = opid,
                            trd_Order = order',
                            trd_LedgerCloseAt = Unix ledgerClosedAt 0,
                            trd_OfferID = OfferId trade,
                            trd_BaseAccountID = 0,
                            trd_BaseAssetID = baseAssetId,
                            trd_BaseAmount = baseAmount,
                            trd_CounterAccountID = 0,
                            trd_CounterAssetID = counterAssetId,
                            trd_CounterAmount = counterAmount,
                            trd_BaseIsSeller = (soldAssetId <s boughtAssetId),
                            trd_BaseAddress = baseAddress,
                            trd_CounterAddress = counterAddress\<rparr>
              in (None, ingest\<lparr>DB := db2,
                               rowsToInsert := rowsToInsert ingest @ [TradeRow tradeR]\<rparr>))))"

text \<open>
  The fields of \<open>core.LedgerHeader\<close> that \<open>Ledger\<close> reads; \<open>hdr_DataXDR\<close> is the
  result of its \<open>DataXDR\<close> method. The two readings of the clock are parameters.
\<close>

record LedgerHeaderData =
  TotalCoins :: int64
  FeePool :: int64
  BaseFee :: uint32
  BaseReserve :: uint32
  MaxTxSetSize :: uint32
  LedgerVersion :: uint32

record LedgerHeader =
  hdr_Sequence :: uint32
  hdr_LedgerHash :: string
  hdr_PrevHash :: string
  hdr_CloseTime :: int64
  hdr_Data :: LedgerHeaderData
  hdr_DataXDR :: string

definition Ledger ::
  "Time \<Rightarrow> Time \<Rightarrow> int64 \<Rightarrow> LedgerHeader \<Rightarrow> int64 \<Rightarrow> int64 \<Rightarrow> Ingestion \<Rightarrow> Ingestion" where
  "Ledger now1 now2 id' header txs ops ingest =
     (let ledger =
        \<lparr>led_ImporterVersion = CurrentVersion,
         led_ID = id',
         led_Sequence = hdr_Sequence header,
         led_LedgerHash = hdr_LedgerHash header,
         led_PreviousLedgerHash = NewString (hdr_PrevHash header) (1 < hdr_Sequence header),
         led_TotalCoins = TotalCoins (hdr_Data header),
         led_FeePool = FeePool (hdr_Data header),
         led_BaseFee = BaseFee (hdr_Data header),
         led_BaseReserve = BaseReserve (hdr_Data header),
         led_MaxTxSetSize = MaxTxSetSize (hdr_Data header),
         led_ClosedAt = Unix (hdr_CloseTime header) 0,
         led_CreatedAt = now1,
         led_UpdatedAt = now2,
         led_TransactionCount = ucast txs,
         led_OperationCount = ucast ops,
         led_ProtocolVersion = LedgerVersion (hdr_Data header),
         led_LedgerHeaderXDR = NewString (hdr_DataXDR header) True\<rparr>
      in ingest\<lparr>rowsToInsert := rowsToInsert ingest @ [LedgerRow ledger]\<rparr>)"

text \<open>\<open>fmt.Sprintf("%d", n)\<close> for an unsigned number.\<close>

definition digit :: "nat \<Rightarrow> char" where
  "digit n = ''0123456789'' ! n"

function decimal :: "nat \<Rightarrow> string" where
  "decimal n = (if n < 10 then [digit n] else decimal (n div 10) @ [digit (n mod 10)])"
  by pat_completeness auto
termination
  by (relation "measure id") auto

record TimeBounds =
  MinTime :: uint64
  MaxTime :: uint64

definition formatTimeBounds :: "TimeBounds option \<Rightarrow> param" where
  "formatTimeBounds bounds =
     (case bounds of
        None \<Rightarrow> PNil
      | Some b \<Rightarrow>
          (if MaxTime b = 0
           then PExpr ''?::int8range'' (''['' @ decimal (unat (MinTime b)) @ '',]'')
           else PExpr ''?::int8range''
                  (''['' @ decimal (unat (MinTime b)) @ '','' @ decimal (unat (MaxTime b)) @ '']'')))"

text \<open>
  The fields of \<open>core.Transaction\<close> and \<open>core.TransactionFee\<close> that \<open>Transaction\<close>
  reads, and the results of the methods it calls on them.
\<close>

record Transaction_core =
  tx_TransactionHash :: string
  tx_LedgerSequence :: int32
  tx_Index :: int32
  tx_Operations :: "string list"
  tx_TimeBounds :: "TimeBounds option"
  tx_Base64Signatures :: "string list"
  tx_SourceAddress :: string
  tx_Sequence :: int64
  tx_Fee :: int32
  tx_EnvelopeXDR :: string
  tx_ResultXDR :: string
  tx_ResultMetaXDR :: string
  tx_MemoType :: string
  tx_Memo :: null_String

record TransactionFee =
  fee_ChangesXDR :: string

definition Transaction ::
  "Time \<Rightarrow> Time \<Rightarrow> int64 \<Rightarrow> Transaction_core \<Rightarrow> TransactionFee \<Rightarrow> Ingestion \<Rightarrow> Ingestion" where
  "Transaction now1 now2 id' tx fee ingest =
     (let signatures = tx_Base64Signatures tx;
          transaction =
        \<lparr>txn_ID = id',
         txn_TransactionHash = tx_TransactionHash tx,
         txn_LedgerSequence = tx_LedgerSequence tx,
         txn_ApplicationOrder = tx_Index tx,
         txn_Account = tx_SourceAddress tx,
         txn_AccountSequence = tx_Sequence tx,
         txn_FeePaid = tx_Fee tx,
         txn_OperationCount = of_nat (length (tx_Operations tx)),
         txn_TxEnvelope = tx_EnvelopeXDR tx,
         txn_TxResult = tx_ResultXDR tx,
         txn_TxMeta = tx_ResultMetaXDR tx,
         txn_TxFeeMeta = fee_ChangesXDR fee,
         txn_SignaturesString = PStringArray signatures,
         txn_TimeBounds = formatTimeBounds (tx_TimeBounds tx),
         txn_MemoType = tx_MemoType tx,
         txn_Memo = tx_Memo tx,
         txn_CreatedAt = now1,
         txn_UpdatedAt = now2\<rparr>
      in ingest\<lparr>rowsToInsert := rowsToInsert ingest @ [TransactionRow transaction]\<rparr>)"

subsection \<open>UpdateAccountIDs\<close>

text \<open>
  The first loop: every address of every row, in order. An address not yet a key of
  \<open>accounts\<close> is appended to \<open>addresses\<close>; then its entry is set to 0.
\<close>

definition collect_address :: "string \<Rightarrow> account_ids \<times> string list \<Rightarrow> account_ids \<times> string list" where
  "collect_address address acc =
     (case acc of (accounts, addresses) \<Rightarrow>
        (AList.update address 0 accounts,
         if map_of accounts address = None then addresses @ [address] else addresses))"

definition collect_addresses :: "row list \<Rightarrow> account_ids \<times> string list" where
  "collect_addresses rows =
     fold (\<lambda>row acc. fold collect_address (GetAddresses row) acc) rows ([], [])"

text \<open>The loops \<open>accounts[row.Address] = row.ID\<close> over the records the store returned.\<close>

definition store_ids :: "Account list \<Rightarrow> account_ids \<Rightarrow> account_ids" where
  "store_ids dbAccounts accounts =
     fold (\<lambda>row acc. AList.update (acc_Address row) (acc_ID row) acc) dbAccounts accounts"

text \<open>
  Go enumerates the keys of a map in an order of its own choosing. The parameter
  \<open>range_order\<close> is that choice: it is applied to the keys in the order of their first
  insertion and returns the order of the enumeration, a permutation of the keys.
\<close>

definition UpdateAccountIDs ::
  "(string list \<Rightarrow> string list) \<Rightarrow> Ingestion \<Rightarrow> error option \<times> Ingestion" where
  "UpdateAccountIDs range_order ingest =
     (case collect_addresses (rowsToInsert ingest) of (accounts, addresses) \<Rightarrow>
      if length addresses = 0 then (None, ingest)
      else
        (case AccountsByAddresses addresses (DB ingest) of
           (Inl err, db1) \<Rightarrow> (Some err, ingest\<lparr>DB := db1\<rparr>)
         | (Inr dbAccounts, db1) \<Rightarrow>
             (let accounts1 = store_ids dbAccounts accounts;
                  addresses1 = filter (\<lambda>address. lookup_id accounts1 address = 0)
                                      (range_order (map fst accounts1))
              in if length addresses1 > 0
                 then
                   (case CreateAccounts addresses1 db1 of
                      (Inl err, db2) \<Rightarrow> (Some err, ingest\<lparr>DB := db2\<rparr>)
                    | (Inr dbAccounts2, db2) \<Rightarrow>
                        (let accounts2 = store_ids dbAccounts2 accounts1
                         in (None, ingest\<lparr>DB := db2,
                                          rowsToInsert := map (row_UpdateAccountIDs accounts2)
                                                              (rowsToInsert ingest)\<rparr>)))
                 else (None, ingest\<lparr>DB := db1,
                                    rowsToInsert := map (row_UpdateAccountIDs accounts1)
                                                        (rowsToInsert ingest)\<rparr>))))"

subsection \<open>Flush\<close>

text \<open>
  \<open>paramsCount\<close> is a Go map from table names to counts, kept as an association list in
  the order of first insertion; reading a missing key gives 0.
\<close>

definition count_of :: "(TableName \<times> nat) list \<Rightarrow> TableName \<Rightarrow> nat" where
  "count_of paramsCount tableName =
     (case map_of paramsCount tableName of None \<Rightarrow> 0 | Some n \<Rightarrow> n)"

text \<open>Reading \<open>ingest.builders[tableName]\<close>; a missing key gives the zero builder.\<close>

definition builder_at :: "Ingestion \<Rightarrow> TableName \<Rightarrow> InsertBuilder" where
  "builder_at ingest tableName =
     (case builders ingest tableName of
        None \<Rightarrow> \<lparr>into = [], columns = [], tuples = []\<rparr>
      | Some b \<Rightarrow> b)"

text \<open>The first loop of \<open>Flush\<close>, over the buffered rows.\<close>

fun Flush_inserts ::
  "row list \<Rightarrow> (TableName \<times> nat) list \<Rightarrow> Ingestion
     \<Rightarrow> error option \<times> (TableName \<times> nat) list \<times> Ingestion" where
  "Flush_inserts [] paramsCount ingest = (None, paramsCount, ingest)"
| "Flush_inserts (row # rows) paramsCount ingest =
     (let tableName = GetTableName row;
          params = GetParams row
      in case builders ingest tableName of
           None \<Rightarrow>
             (Some (Error (tableName @ '' insert builder does not exist'')),
              paramsCount, ingest)
         | Some b \<Rightarrow>
             (let ingest1 = ingest\<lparr>builders := (builders ingest)(tableName \<mapsto> Values params b)\<rparr>;
                  paramsCount1 = AList.update tableName
                                   (count_of paramsCount tableName + length params) paramsCount
              in if count_of paramsCount1 tableName > 65000
                 then
                   (case Exec (builder_at ingest1 tableName) (DB ingest1) of
                      (Some err, db) \<Rightarrow>
                        (Some (Wrap err (''Error adding values while inserting to '' @ tableName)),
                         paramsCount1, ingest1\<lparr>DB := db\<rparr>)
                    | (None, db) \<Rightarrow>
                        (case createInsertBuilderByTableName tableName (ingest1\<lparr>DB := db\<rparr>) of
                           (Some err, ingest2) \<Rightarrow>
                             (Some err, AList.update tableName 0 paramsCount1, ingest2)
                         | (None, ingest2) \<Rightarrow>
                             Flush_inserts rows (AList.update tableName 0 paramsCount1) ingest2))
                 else Flush_inserts rows paramsCount1 ingest1))"

text \<open>The second loop of \<open>Flush\<close>, over the keys of \<open>paramsCount\<close> as enumerated.\<close>

fun Flush_rest ::
  "TableName list \<Rightarrow> (TableName \<times> nat) list \<Rightarrow> Ingestion \<Rightarrow> error option \<times> Ingestion" where
  "Flush_rest [] paramsCount ingest = (None, ingest)"
| "Flush_rest (tableName # tableNames) paramsCount ingest =
     (let params = count_of paramsCount tableName
      in if params > 0
         then
           (case Exec (builder_at ingest tableName) (DB ingest) of
              (Some err, db) \<Rightarrow>
                (Some (Wrap err (''Error adding values while inserting to '' @ tableName)),
                 ingest\<lparr>DB := db\<rparr>)
            | (None, db) \<Rightarrow> Flush_rest tableNames paramsCount (ingest\<lparr>DB := db\<rparr>))
         else Flush_rest tableNames paramsCount ingest)"

definition Flush ::
  "(string list \<Rightarrow> string list) \<Rightarrow> (TableName list \<Rightarrow> TableName list) \<Rightarrow> Ingestion
     \<Rightarrow> error option \<times> Ingestion" where
  "Flush range_accounts range_tables ingest =
     (case UpdateAccountIDs range_accounts ingest of
        (Some err, i1) \<Rightarrow> (Some (Wrap err ''Error while updating account ids''), i1)
      | (None, i1) \<Rightarrow>
     (case Flush_inserts (rowsToInsert i1) [] i1 of
        (Some err, paramsCount, i2) \<Rightarrow> (Some err, i2)
      | (None, paramsCount, i2) \<Rightarrow>
     (case Flush_rest (range_tables (map fst paramsCount)) paramsCount i2 of
        (Some err, i3) \<Rightarrow> (Some err, i3)
      | (None, i3) \<Rightarrow>
     (case commit i3 of
        (Some err, i4) \<Rightarrow> (Some err, i4)
      | (None, i4) \<Rightarrow> Start i4))))"

section \<open>Definitions used to state the properties\<close>

text \<open>\<open>NewSession\<close> creates the writer with only its store session set.\<close>

definition NewIngestion :: "db_Session \<Rightarrow> Ingestion" where
  "NewIngestion hdb =
     \<lparr>DB = hdb, builders = Map.empty, rowsToInsert = [],
      assetStats = \<lparr>into = [], columns = [], tuples = []\<rparr>\<rparr>"

text \<open>The tables that \<open>Clear\<close> empties, each with its key column, in the order of the code.\<close>

definition Clear_targets :: "(string \<times> string) list" where
  "Clear_targets =
     [(''history_effects'', ''history_operation_id''),
      (''history_operation_participants'', ''history_operation_id''),
      (''history_operations'', ''id''),
      (''history_transaction_participants'', ''history_transaction_id''),
      (''history_transactions'', ''id''),
      (''history_ledgers'', ''id''),
      (''history_trades'', ''history_operation_id''),
      (''asset_stats'', ''id'')]"

text \<open>Range deletes issued one after the other, stopping at the first that fails.\<close>

fun delete_ranges ::
  "int64 \<Rightarrow> int64 \<Rightarrow> (string \<times> string) list \<Rightarrow> db_Session \<Rightarrow> error option \<times> db_Session" where
  "delete_ranges start end' [] s = (None, s)"
| "delete_ranges start end' ((table, idCol) # ts) s =
     (case DeleteRange start end' table idCol s of
        (Some err, s') \<Rightarrow> (Some err, s')
      | (None, s') \<Rightarrow> delete_ranges start end' ts s')"

text \<open>
  The same exchange seen from the other party: the buyer becomes the seller of what it
  paid, and the seller becomes the buyer of what it sold.
\<close>

definition mirrored :: "AccountId \<Rightarrow> ClaimOfferAtom \<Rightarrow> ClaimOfferAtom" where
  "mirrored buyer trade =
     \<lparr>SellerId = buyer, OfferId = OfferId trade,
      AssetSold = AssetBought trade, AmountSold = AmountBought trade,
      AssetBought = AssetSold trade, AmountBought = AmountSold trade\<rparr>"

text \<open>
  A store without records that accepts every call. The builders as
  \<open>createInsertBuilders\<close> leaves them (they do not depend on the writer it is applied
  to), and the seven table names.
\<close>

definition empty_store :: db_Session where
  "empty_store =
     \<lparr>calls = [], fault = (\<lambda>log c. None),
      history_accounts = [], next_account_id = 1,
      history_assets = [], next_asset_id = 1\<rparr>"

definition fresh_builders :: "TableName \<rightharpoonup> InsertBuilder" where
  "fresh_builders = builders (createInsertBuilders (NewIngestion empty_store))"

definition table_names :: "TableName list" where
  "table_names =
     [EffectsTableName, LedgersTableName, OperationParticipantsTableName,
      OperationsTableName, TradesTableName, TransactionParticipantsTableName,
      TransactionsTableName]"

text \<open>
  The insert statements handed to \<open>Exec\<close>, in the order of the store's log, and the
  statements handed over during one \<open>Flush\<close>.
\<close>

definition executed :: "db_Session \<Rightarrow> InsertBuilder list" where
  "executed s = concat (map (\<lambda>(c, r). case c of CallExec b \<Rightarrow> [b] | _ \<Rightarrow> []) (calls s))"


text \<open>
  The value tuples that a list of statements carries for one table, the buffered rows
  of one table, and the number of parameters these rows have.
\<close>

definition table_tuples :: "TableName \<Rightarrow> InsertBuilder list \<Rightarrow> param list list" where
  "table_tuples t bs = concat (map tuples (filter (\<lambda>b. into b = t) bs))"

definition rows_for :: "TableName \<Rightarrow> row list \<Rightarrow> row list" where
  "rows_for t rows = filter (\<lambda>r. GetTableName r = t) rows"



definition referenced_addresses :: "row list \<Rightarrow> string list" where
  "referenced_addresses rows = concat (map GetAddresses rows)"

text \<open>
  The invariant of the first loop of \<open>Flush\<close>: the keys of \<open>paramsCount\<close> are
  distinct, the builders are those of \<open>createInsertBuilders\<close> with some tuples added,
  none of them empty, and the count of each table is the number of parameters of its
  pending statement, at most 65000.
\<close>

definition pending_ok :: "(TableName \<times> nat) list \<Rightarrow> Ingestion \<Rightarrow> bool" where
  "pending_ok paramsCount ingest \<longleftrightarrow>
     distinct (map fst paramsCount) \<and>
     dom (builders ingest) = dom fresh_builders \<and>
     (\<forall>t. builders ingest t = None \<longrightarrow> count_of paramsCount t = 0) \<and>
     (\<forall>t b. builders ingest t = Some b \<longrightarrow>
        (\<exists>f. fresh_builders t = Some f \<and> b = f\<lparr>tuples := tuples b\<rparr>)
        \<and> count_of paramsCount t = bound_parameters b
        \<and> bound_parameters b \<le> 65000
        \<and> [] \<notin> set (tuples b))"

subsection \<open>Concrete inputs\<close>

definition example_store :: db_Session where
  "example_store =
     \<lparr>calls = [], fault = (\<lambda>log c. None),
      history_accounts = [\<lparr>acc_ID = 1, acc_Address = ''GALICE''\<rparr>], next_account_id = 2,
      history_assets = [(AssetCreditAlphanum4 ''USD'' ''GISSUER'', 3),
                        (AssetCreditAlphanum4 ''EUR'' ''GISSUER'', 5)],
      next_asset_id = 6\<rparr>"

definition example_trade :: ClaimOfferAtom where
  "example_trade =
     \<lparr>SellerId = AccountId ''GALICE'', OfferId = 9,
      AssetSold = AssetCreditAlphanum4 ''EUR'' ''GISSUER'', AmountSold = 100,
      AssetBought = AssetCreditAlphanum4 ''USD'' ''GISSUER'', AmountBought = 250\<rparr>"

definition same_asset_trade :: ClaimOfferAtom where
  "same_asset_trade =
     \<lparr>SellerId = AccountId ''GALICE'', OfferId = 9,
      AssetSold = AssetNative, AmountSold = 100,
      AssetBought = AssetNative, AmountBought = 250\<rparr>"

text \<open>An encoder that rejects one payload, as \<open>json.Marshal\<close> rejects a channel.\<close>

definition example_Marshal :: "string \<Rightarrow> error + string" where
  "example_Marshal details =
     (if details = ''chan'' then Inl (Error ''json: unsupported type: chan int'')
      else Inr details)"

text \<open>A store that rejects every range delete on \<open>history_operations\<close>.\<close>

definition failing_store :: db_Session where
  "failing_store =
     empty_store\<lparr>fault := (\<lambda>log c.
        case c of
          CallDeleteRange start end' table idCol \<Rightarrow>
            if table = ''history_operations'' then Some (Error ''deadlock detected'') else None
        | _ \<Rightarrow> None)\<rparr>"

text \<open>A started writer, and the same writer with three rows buffered by two emitters.\<close>

definition started_writer :: Ingestion where
  "started_writer = snd (Start (NewIngestion example_store))"

definition example_buffered :: Ingestion where
  "example_buffered =
     snd (OperationParticipants 12 [AccountId ''GALICE'', AccountId ''GBOB'']
       (snd (Effect example_Marshal ''GALICE'' 12 1 2 ''{}'' started_writer)))"


text \<open>An effect row with its account identifier resolved.\<close>

definition example_effect :: row where
  "example_effect =
     EffectRow \<lparr>eff_AccountID = 1, eff_OperationID = 12, eff_Order = 1, eff_Type = 2,
        eff_Details = ''{}'', eff_Address = ''GALICE''\<rparr>"

section \<open>Properties\<close>

subsection \<open>Clear\<close>

lemma Clear_delete_ranges:
  "Clear start end' ingest =
     (case delete_ranges start end' Clear_targets (DB ingest) of
        (err, db) \<Rightarrow> (err, ingest\<lparr>DB := db\<rparr>))"
  by (simp add: Clear_def clear_def Clear_targets_def split: prod.splits option.splits)

lemma delete_ranges_calls:
  "delete_ranges start end' ts s = (r, s') \<Longrightarrow>
   \<exists>k. k \<le> length ts \<and>
     calls s' = calls s
        @ map (\<lambda>(table, idCol). (CallDeleteRange start end' table idCol, None)) (take k ts)
        @ (case r of None \<Rightarrow> []
           | Some err \<Rightarrow> [(CallDeleteRange start end' (fst (ts ! k)) (snd (ts ! k)), Some err)])
     \<and> (case r of None \<Rightarrow> k = length ts | Some err \<Rightarrow> k < length ts)
     \<and> s' = s\<lparr>calls := calls s'\<rparr>"
proof (induction ts arbitrary: s)
  case Nil
  then show ?case by auto
next
  case (Cons tc ts)
  obtain table idCol where tc: "tc = (table, idCol)" by (cases tc)
  obtain e s1 where d: "DeleteRange start end' table idCol s = (e, s1)" by force
  have s1: "s1 = s\<lparr>calls := calls s @ [(CallDeleteRange start end' table idCol, e)]\<rparr>"
    using d by (auto simp: DeleteRange_def issue_def Let_def)
  show ?case
  proof (cases e)
    case (Some err)
    with Cons.prems tc d s1 show ?thesis
      by (intro exI[of _ 0]) auto
  next
    case None
    with Cons.prems tc d have "delete_ranges start end' ts s1 = (r, s')" by simp
    from Cons.IH[OF this] obtain k where k: "k \<le> length ts"
      "calls s' = calls s1
        @ map (\<lambda>(table, idCol). (CallDeleteRange start end' table idCol, None)) (take k ts)
        @ (case r of None \<Rightarrow> []
           | Some err \<Rightarrow> [(CallDeleteRange start end' (fst (ts ! k)) (snd (ts ! k)), Some err)])"
      "(case r of None \<Rightarrow> k = length ts | Some err \<Rightarrow> k < length ts)"
      "s' = s1\<lparr>calls := calls s'\<rparr>" by blast
    show ?thesis
      using k s1 None tc
      by (intro exI[of _ "Suc k"]) (auto split: option.splits)
  qed
qed

text \<open>
  Claim C8. \<open>Clear start end\<close> issues the range deletes over \<open>[start, end)\<close> in the fixed
  order of \<open>Clear_targets\<close>, one per table and each on the table's own key column. The
  log of the store grows by the first \<open>k\<close> deletes, all successful, followed, when
  \<open>Clear\<close> returns an error, by the delete that failed with exactly that error; no
  delete of a later table is issued, nothing undoes the earlier ones, and nothing else
  of the writer or of the store changes. Without an error all eight deletes are issued.
\<close>

theorem Clear_range_deletes:
  "\<exists>k. k \<le> length Clear_targets
     \<and> calls (DB (snd (Clear start end' ingest))) =
         calls (DB ingest)
         @ map (\<lambda>(table, idCol). (CallDeleteRange start end' table idCol, None))
               (take k Clear_targets)
         @ (case fst (Clear start end' ingest) of
              None \<Rightarrow> []
            | Some err \<Rightarrow>
                [(CallDeleteRange start end' (fst (Clear_targets ! k)) (snd (Clear_targets ! k)),
                  Some err)])
     \<and> (case fst (Clear start end' ingest) of
          None \<Rightarrow> k = length Clear_targets
        | Some err \<Rightarrow> k < length Clear_targets)
     \<and> snd (Clear start end' ingest) =
         ingest\<lparr>DB := (DB ingest)\<lparr>calls := calls (DB (snd (Clear start end' ingest)))\<rparr>\<rparr>
     \<and> distinct (map fst Clear_targets)
     \<and> set table_names \<subseteq> set (map fst Clear_targets)"
proof -
  obtain r s' where d: "delete_ranges start end' Clear_targets (DB ingest) = (r, s')"
    by force
  from delete_ranges_calls[OF d] obtain k where k: "k \<le> length Clear_targets"
    "calls s' = calls (DB ingest)
        @ map (\<lambda>(table, idCol). (CallDeleteRange start end' table idCol, None))
              (take k Clear_targets)
        @ (case r of None \<Rightarrow> []
           | Some err \<Rightarrow>
               [(CallDeleteRange start end' (fst (Clear_targets ! k)) (snd (Clear_targets ! k)),
                 Some err)])"
    "(case r of None \<Rightarrow> k = length Clear_targets | Some err \<Rightarrow> k < length Clear_targets)"
    "s' = (DB ingest)\<lparr>calls := calls s'\<rparr>" by blast
  have c: "Clear start end' ingest = (r, ingest\<lparr>DB := s'\<rparr>)"
    by (simp add: Clear_delete_ranges d)
  have t: "distinct (map fst Clear_targets)"
    "set table_names \<subseteq> set (map fst Clear_targets)"
    by (simp_all add: Clear_targets_def table_names_def EffectsTableName_def
        LedgersTableName_def OperationParticipantsTableName_def OperationsTableName_def
        TradesTableName_def TransactionParticipantsTableName_def TransactionsTableName_def)
  show ?thesis
    unfolding c using k t by (intro exI[of _ k]) simp
qed

lemma Clear_failing_store:
  "Clear 10 15 (NewIngestion failing_store) =
     (Some (Error ''deadlock detected''),
      (NewIngestion failing_store)\<lparr>DB := failing_store\<lparr>calls :=
         [(CallDeleteRange 10 15 ''history_effects'' ''history_operation_id'', None),
          (CallDeleteRange 10 15 ''history_operation_participants'' ''history_operation_id'',
           None),
          (CallDeleteRange 10 15 ''history_operations'' ''id'',
           Some (Error ''deadlock detected''))]\<rparr>\<rparr>)"
  by (simp add: Clear_delete_ranges Clear_targets_def DeleteRange_def issue_def Let_def
      failing_store_def empty_store_def NewIngestion_def)

theorem Clear_range_deletes_witness:
  "fst (Clear 10 15 (NewIngestion failing_store)) = Some (Error ''deadlock detected'')
   \<and> calls (DB (snd (Clear 10 15 (NewIngestion failing_store)))) =
       [(CallDeleteRange 10 15 ''history_effects'' ''history_operation_id'', None),
        (CallDeleteRange 10 15 ''history_operation_participants'' ''history_operation_id'',
         None),
        (CallDeleteRange 10 15 ''history_operations'' ''id'',
         Some (Error ''deadlock detected''))]
   \<and> (\<exists>k. k < length Clear_targets
         \<and> calls (DB (snd (Clear 10 15 (NewIngestion failing_store)))) =
             calls (DB (NewIngestion failing_store))
             @ map (\<lambda>(table, idCol). (CallDeleteRange 10 15 table idCol, None))
                   (take k Clear_targets)
             @ [(CallDeleteRange 10 15 (fst (Clear_targets ! k)) (snd (Clear_targets ! k)),
                 Some (Error ''deadlock detected''))])"
proof -
  have f: "fst (Clear 10 15 (NewIngestion failing_store)) = Some (Error ''deadlock detected'')"
    by (simp add: Clear_failing_store)
  from Clear_range_deletes[of 10 15 "NewIngestion failing_store"]
  have "\<exists>k. k < length Clear_targets
         \<and> calls (DB (snd (Clear 10 15 (NewIngestion failing_store)))) =
             calls (DB (NewIngestion failing_store))
             @ map (\<lambda>(table, idCol). (CallDeleteRange 10 15 table idCol, None))
                   (take k Clear_targets)
             @ [(CallDeleteRange 10 15 (fst (Clear_targets ! k)) (snd (Clear_targets ! k)),
                 Some (Error ''deadlock detected''))]"
    unfolding f by (elim exE conjE) (rule exI, simp)
  then show ?thesis
    by (simp add: Clear_failing_store)
qed

subsection \<open>Emitters\<close>

lemma fold_append_rows:
  "fold (\<lambda>aid ing. ing\<lparr>rowsToInsert := rowsToInsert ing @ [f aid]\<rparr>) aids ingest =
     ingest\<lparr>rowsToInsert := rowsToInsert ingest @ map f aids\<rparr>"
  by (induction aids arbitrary: ingest) simp_all

lemma GetCreateAssetID_calls:
  "GetCreateAssetID asset s = (r, s') \<Longrightarrow>
     calls s' = calls s @ [(CallGetCreateAssetID asset, case r of Inl e \<Rightarrow> Some e | Inr i \<Rightarrow> None)]"
  by (auto simp: GetCreateAssetID_def issue_def Let_def split: option.splits)

lemma Trade_sold_fails:
  assumes "GetCreateAssetID (AssetSold trade) (DB ingest) = (Inl e, db1)"
  shows "Trade opid order' buyer trade ledgerClosedAt ingest =
     (Some (Wrap e ''failed to get sold asset id''), ingest\<lparr>DB := db1\<rparr>)"
  using assms by (simp add: Trade_def)

lemma Trade_bought_fails:
  assumes "GetCreateAssetID (AssetSold trade) (DB ingest) = (Inr soldAssetId, db1)"
    and "GetCreateAssetID (AssetBought trade) db1 = (Inl e, db2)"
  shows "Trade opid order' buyer trade ledgerClosedAt ingest =
     (Some (Wrap e ''failed to get bought asset id''), ingest\<lparr>DB := db2\<rparr>)"
  using assms by (simp add: Trade_def)

lemma Trade_resolved:
  assumes "GetCreateAssetID (AssetSold trade) (DB ingest) = (Inr soldAssetId, db1)"
    and "GetCreateAssetID (AssetBought trade) db1 = (Inr boughtAssetId, db2)"
  shows "Trade opid order' buyer trade ledgerClosedAt ingest =
     (None, ingest\<lparr>DB := db2, rowsToInsert := rowsToInsert ingest @ [TradeRow
        (if soldAssetId <s boughtAssetId then
         \<lparr>trd_OperationID = opid, trd_Order = order', trd_LedgerCloseAt = Unix ledgerClosedAt 0,
          trd_OfferID = OfferId trade, trd_BaseAccountID = 0, trd_BaseAssetID = soldAssetId,
          trd_BaseAmount = AmountSold trade, trd_CounterAccountID = 0,
          trd_CounterAssetID = boughtAssetId, trd_CounterAmount = AmountBought trade,
          trd_BaseIsSeller = True, trd_BaseAddress = Address (SellerId trade),
          trd_CounterAddress = Address buyer\<rparr>
         else
         \<lparr>trd_OperationID = opid, trd_Order = order', trd_LedgerCloseAt = Unix ledgerClosedAt 0,
          trd_OfferID = OfferId trade, trd_BaseAccountID = 0, trd_BaseAssetID = boughtAssetId,
          trd_BaseAmount = AmountBought trade, trd_CounterAccountID = 0,
          trd_CounterAssetID = soldAssetId, trd_CounterAmount = AmountSold trade,
          trd_BaseIsSeller = False, trd_BaseAddress = Address buyer,
          trd_CounterAddress = Address (SellerId trade)\<rparr>)]\<rparr>)"
  using assms by (simp add: Trade_def)

lemma Trade_frame:
  "builders (snd (Trade opid order' buyer trade ledgerClosedAt ingest)) = builders ingest
   \<and> assetStats (snd (Trade opid order' buyer trade ledgerClosedAt ingest)) = assetStats ingest
   \<and> ((\<exists>e. fst (Trade opid order' buyer trade ledgerClosedAt ingest) =
               Some (Wrap e ''failed to get sold asset id'')
           \<and> calls (DB (snd (Trade opid order' buyer trade ledgerClosedAt ingest))) =
               calls (DB ingest) @ [(CallGetCreateAssetID (AssetSold trade), Some e)]
           \<and> rowsToInsert (snd (Trade opid order' buyer trade ledgerClosedAt ingest)) =
               rowsToInsert ingest)
      \<or> (\<exists>e. fst (Trade opid order' buyer trade ledgerClosedAt ingest) =
               Some (Wrap e ''failed to get bought asset id'')
           \<and> calls (DB (snd (Trade opid order' buyer trade ledgerClosedAt ingest))) =
               calls (DB ingest) @ [(CallGetCreateAssetID (AssetSold trade), None),
                                    (CallGetCreateAssetID (AssetBought trade), Some e)]
           \<and> rowsToInsert (snd (Trade opid order' buyer trade ledgerClosedAt ingest)) =
               rowsToInsert ingest)
      \<or> (\<exists>r. fst (Trade opid order' buyer trade ledgerClosedAt ingest) = None
           \<and> calls (DB (snd (Trade opid order' buyer trade ledgerClosedAt ingest))) =
               calls (DB ingest) @ [(CallGetCreateAssetID (AssetSold trade), None),
                                    (CallGetCreateAssetID (AssetBought trade), None)]
           \<and> rowsToInsert (snd (Trade opid order' buyer trade ledgerClosedAt ingest)) =
               rowsToInsert ingest @ [TradeRow r]))"
proof -
  obtain r1 db1 where g1: "GetCreateAssetID (AssetSold trade) (DB ingest) = (r1, db1)" by force
  obtain r2 db2 where g2: "GetCreateAssetID (AssetBought trade) db1 = (r2, db2)" by force
  note c1 = GetCreateAssetID_calls[OF g1]
  note c2 = GetCreateAssetID_calls[OF g2]
  show ?thesis
  proof (cases r1)
    case (Inl e)
    show ?thesis
      unfolding Trade_sold_fails[OF g1[unfolded Inl]] using c1 Inl by simp
  next
    case (Inr soldAssetId)
    note s = Inr
    show ?thesis
    proof (cases r2)
      case (Inl e)
      show ?thesis
        unfolding Trade_bought_fails[OF g1[unfolded s] g2[unfolded Inl]] using c1 c2 s Inl by simp
    next
      case (Inr boughtAssetId)
      show ?thesis
        unfolding Trade_resolved[OF g1[unfolded s] g2[unfolded Inr]] using c1 c2 s Inr by simp
    qed
  qed
qed

lemma sless_flip: "(a::int64) \<noteq> b \<Longrightarrow> \<not> a <s b \<Longrightarrow> b <s a"
  by (meson signed.not_less_iff_gr_or_eq)

lemma example_sold:
  "GetCreateAssetID (AssetSold example_trade) (DB (NewIngestion example_store)) =
     (Inr 5, snd (GetCreateAssetID (AssetSold example_trade) example_store))"
  by (simp add: GetCreateAssetID_def issue_def example_trade_def example_store_def
      NewIngestion_def)

lemma example_bought:
  "GetCreateAssetID (AssetBought example_trade)
       (snd (GetCreateAssetID (AssetSold example_trade) example_store)) =
     (Inr 3, snd (GetCreateAssetID (AssetBought example_trade)
                    (snd (GetCreateAssetID (AssetSold example_trade) example_store))))"
  by (simp add: GetCreateAssetID_def issue_def example_trade_def example_store_def)

lemma example_bought_first:
  "GetCreateAssetID (AssetBought example_trade) (DB (NewIngestion example_store)) =
     (Inr 3, snd (GetCreateAssetID (AssetBought example_trade) example_store))"
  by (simp add: GetCreateAssetID_def issue_def example_trade_def example_store_def
      NewIngestion_def)

lemma example_sold_second:
  "GetCreateAssetID (AssetSold example_trade)
       (snd (GetCreateAssetID (AssetBought example_trade) example_store)) =
     (Inr 5, snd (GetCreateAssetID (AssetSold example_trade)
                    (snd (GetCreateAssetID (AssetBought example_trade) example_store))))"
  by (simp add: GetCreateAssetID_def issue_def example_trade_def example_store_def)

text \<open>
  Claim C3. When the sold and the bought asset resolve to distinct identifiers, the row
  that \<open>Trade\<close> buffers has the asset with the lower identifier as base and the other as
  counter; the seller's address and sold amount, and the buyer's address and bought
  amount, are on the side of their asset; \<open>base_is_seller\<close> says whether the sold asset is
  the base. For the same exchange recorded from the other party (\<open>mirrored\<close>, resolving
  to the same identifiers) the row is the same except for \<open>base_is_seller\<close>, which is
  negated; with only the two parties exchanged the row is the same except that the two
  addresses exchange sides. In both cases the base and counter identifiers and amounts
  are identical.
\<close>

theorem Trade_canonical:
  assumes sold: "GetCreateAssetID (AssetSold trade) (DB ingest) = (Inr soldAssetId, db1)"
    and bought: "GetCreateAssetID (AssetBought trade) db1 = (Inr boughtAssetId, db2)"
    and distinct_ids: "soldAssetId \<noteq> boughtAssetId"
    and sold': "GetCreateAssetID (AssetBought trade) (DB ingest') = (Inr boughtAssetId, db1')"
    and bought': "GetCreateAssetID (AssetSold trade) db1' = (Inr soldAssetId, db2')"
  shows "\<exists>r. Trade opid order' buyer trade ledgerClosedAt ingest =
           (None, ingest\<lparr>DB := db2, rowsToInsert := rowsToInsert ingest @ [TradeRow r]\<rparr>)
       \<and> trd_BaseAssetID r <s trd_CounterAssetID r
       \<and> {trd_BaseAssetID r, trd_CounterAssetID r} = {soldAssetId, boughtAssetId}
       \<and> (trd_BaseAssetID r, trd_BaseAmount r, trd_BaseAddress r,
          trd_CounterAssetID r, trd_CounterAmount r, trd_CounterAddress r) =
         (if soldAssetId <s boughtAssetId
          then (soldAssetId, AmountSold trade, Address (SellerId trade),
                boughtAssetId, AmountBought trade, Address buyer)
          else (boughtAssetId, AmountBought trade, Address buyer,
                soldAssetId, AmountSold trade, Address (SellerId trade)))
       \<and> trd_BaseIsSeller r = (trd_BaseAssetID r = soldAssetId)
       \<and> Trade opid order' (SellerId trade) (mirrored buyer trade) ledgerClosedAt ingest' =
           (None, ingest'\<lparr>DB := db2', rowsToInsert := rowsToInsert ingest' @
              [TradeRow (r\<lparr>trd_BaseIsSeller := \<not> trd_BaseIsSeller r\<rparr>)]\<rparr>)
       \<and> Trade opid order' (SellerId trade) (trade\<lparr>SellerId := buyer\<rparr>) ledgerClosedAt ingest =
           (None, ingest\<lparr>DB := db2, rowsToInsert := rowsToInsert ingest @
              [TradeRow (r\<lparr>trd_BaseAddress := trd_CounterAddress r,
                            trd_CounterAddress := trd_BaseAddress r\<rparr>)]\<rparr>)"
proof -
  have m: "GetCreateAssetID (AssetSold (mirrored buyer trade)) (DB ingest') = (Inr boughtAssetId, db1')"
       "GetCreateAssetID (AssetBought (mirrored buyer trade)) db1' = (Inr soldAssetId, db2')"
    using sold' bought' by (simp_all add: mirrored_def)
  have p: "GetCreateAssetID (AssetSold (trade\<lparr>SellerId := buyer\<rparr>)) (DB ingest) = (Inr soldAssetId, db1)"
       "GetCreateAssetID (AssetBought (trade\<lparr>SellerId := buyer\<rparr>)) db1 = (Inr boughtAssetId, db2)"
    using sold bought by simp_all
  show ?thesis
  proof (cases "soldAssetId <s boughtAssetId")
    case True
    then have n: "\<not> boughtAssetId <s soldAssetId" by (meson signed.less_asym)
    show ?thesis
      unfolding Trade_resolved[OF sold bought] Trade_resolved[OF m] Trade_resolved[OF p]
      using True n distinct_ids
      by (intro exI[of _ "\<lparr>trd_OperationID = opid, trd_Order = order', trd_LedgerCloseAt = Unix ledgerClosedAt 0,
          trd_OfferID = OfferId trade, trd_BaseAccountID = 0, trd_BaseAssetID = soldAssetId,
          trd_BaseAmount = AmountSold trade, trd_CounterAccountID = 0,
          trd_CounterAssetID = boughtAssetId, trd_CounterAmount = AmountBought trade,
          trd_BaseIsSeller = True, trd_BaseAddress = Address (SellerId trade),
          trd_CounterAddress = Address buyer\<rparr>"]) (auto simp add: mirrored_def)
  next
    case False
    then have n: "boughtAssetId <s soldAssetId" using distinct_ids by (rule sless_flip[rotated])
    show ?thesis
      unfolding Trade_resolved[OF sold bought] Trade_resolved[OF m] Trade_resolved[OF p]
      using False n distinct_ids
      by (intro exI[of _ "\<lparr>trd_OperationID = opid, trd_Order = order', trd_LedgerCloseAt = Unix ledgerClosedAt 0,
          trd_OfferID = OfferId trade, trd_BaseAccountID = 0, trd_BaseAssetID = boughtAssetId,
          trd_BaseAmount = AmountBought trade, trd_CounterAccountID = 0,
          trd_CounterAssetID = soldAssetId, trd_CounterAmount = AmountSold trade,
          trd_BaseIsSeller = False, trd_BaseAddress = Address buyer,
          trd_CounterAddress = Address (SellerId trade)\<rparr>"]) (auto simp add: mirrored_def)
  qed
qed

theorem Trade_canonical_witness:
  "\<exists>r. Trade 7 1 (AccountId ''GBOB'') example_trade 0 (NewIngestion example_store) =
          (None, (NewIngestion example_store)
             \<lparr>DB := snd (GetCreateAssetID (AssetBought example_trade)
                      (snd (GetCreateAssetID (AssetSold example_trade) example_store))),
              rowsToInsert := rowsToInsert (NewIngestion example_store) @ [TradeRow r]\<rparr>)
      \<and> trd_BaseAssetID r = 3 \<and> trd_CounterAssetID r = 5 \<and> \<not> trd_BaseIsSeller r
      \<and> trd_BaseAddress r = ''GBOB'' \<and> trd_CounterAddress r = ''GALICE''
      \<and> trd_BaseAmount r = 250 \<and> trd_CounterAmount r = 100
      \<and> Trade 7 1 (SellerId example_trade) (mirrored (AccountId ''GBOB'') example_trade) 0
            (NewIngestion example_store) =
          (None, (NewIngestion example_store)
             \<lparr>DB := snd (GetCreateAssetID (AssetSold example_trade)
                      (snd (GetCreateAssetID (AssetBought example_trade) example_store))),
              rowsToInsert := rowsToInsert (NewIngestion example_store) @
                [TradeRow (r\<lparr>trd_BaseIsSeller := True\<rparr>)]\<rparr>)"
proof -
  have distinct_ids: "(5::int64) \<noteq> 3" by simp
  show ?thesis
    using Trade_canonical[OF example_sold example_bought distinct_ids example_bought_first
        example_sold_second, where opid=7 and order'=1 and buyer="AccountId ''GBOB''"
        and ledgerClosedAt=0]
    by (elim exE conjE) (rule exI, rule conjI, assumption, simp add: example_trade_def)
qed

text \<open>
  Claim C10. Whatever the two resolved identifiers are, \<open>base_is_seller\<close> is exactly
  "the sold asset's identifier is strictly lower than the bought asset's", and the seller
  is placed on the base side exactly in that case. In particular, when the two
  identifiers are equal the buyer's address and bought amount are on the base side, the
  seller's address and sold amount on the counter side, and \<open>base_is_seller\<close> is false.
\<close>

theorem Trade_equal_identifiers:
  assumes sold: "GetCreateAssetID (AssetSold trade) (DB ingest) = (Inr soldAssetId, db1)"
    and bought: "GetCreateAssetID (AssetBought trade) db1 = (Inr boughtAssetId, db2)"
  shows "\<exists>r. Trade opid order' buyer trade ledgerClosedAt ingest =
           (None, ingest\<lparr>DB := db2, rowsToInsert := rowsToInsert ingest @ [TradeRow r]\<rparr>)
       \<and> trd_BaseIsSeller r = (soldAssetId <s boughtAssetId)
       \<and> (soldAssetId = boughtAssetId \<longrightarrow>
            trd_BaseAddress r = Address buyer \<and> trd_BaseAmount r = AmountBought trade
          \<and> trd_BaseAssetID r = boughtAssetId
          \<and> trd_CounterAddress r = Address (SellerId trade)
          \<and> trd_CounterAmount r = AmountSold trade \<and> trd_CounterAssetID r = soldAssetId
          \<and> trd_BaseIsSeller r = False)
       \<and> (trd_BaseAssetID r, trd_BaseAmount r, trd_BaseAddress r,
          trd_CounterAssetID r, trd_CounterAmount r, trd_CounterAddress r) =
         (if soldAssetId <s boughtAssetId
          then (soldAssetId, AmountSold trade, Address (SellerId trade),
                boughtAssetId, AmountBought trade, Address buyer)
          else (boughtAssetId, AmountBought trade, Address buyer,
                soldAssetId, AmountSold trade, Address (SellerId trade)))"
proof (cases "soldAssetId <s boughtAssetId")
  case True
  then have "soldAssetId \<noteq> boughtAssetId" by auto
  with True show ?thesis
    unfolding Trade_resolved[OF sold bought]
    by (intro exI[of _ "\<lparr>trd_OperationID = opid, trd_Order = order', trd_LedgerCloseAt = Unix ledgerClosedAt 0,
          trd_OfferID = OfferId trade, trd_BaseAccountID = 0, trd_BaseAssetID = soldAssetId,
          trd_BaseAmount = AmountSold trade, trd_CounterAccountID = 0,
          trd_CounterAssetID = boughtAssetId, trd_CounterAmount = AmountBought trade,
          trd_BaseIsSeller = True, trd_BaseAddress = Address (SellerId trade),
          trd_CounterAddress = Address buyer\<rparr>"]) simp
next
  case False
  then show ?thesis
    unfolding Trade_resolved[OF sold bought]
    by (intro exI[of _ "\<lparr>trd_OperationID = opid, trd_Order = order', trd_LedgerCloseAt = Unix ledgerClosedAt 0,
          trd_OfferID = OfferId trade, trd_BaseAccountID = 0, trd_BaseAssetID = boughtAssetId,
          trd_BaseAmount = AmountBought trade, trd_CounterAccountID = 0,
          trd_CounterAssetID = soldAssetId, trd_CounterAmount = AmountSold trade,
          trd_BaseIsSeller = False, trd_BaseAddress = Address buyer,
          trd_CounterAddress = Address (SellerId trade)\<rparr>"]) simp
qed

lemma same_asset_sold:
  "GetCreateAssetID (AssetSold same_asset_trade) (DB (NewIngestion empty_store)) =
     (Inr 1, snd (GetCreateAssetID (AssetSold same_asset_trade) empty_store))"
  by (simp add: GetCreateAssetID_def issue_def same_asset_trade_def empty_store_def
      NewIngestion_def)

lemma same_asset_bought:
  "GetCreateAssetID (AssetBought same_asset_trade)
       (snd (GetCreateAssetID (AssetSold same_asset_trade) empty_store)) =
     (Inr 1, snd (GetCreateAssetID (AssetBought same_asset_trade)
                    (snd (GetCreateAssetID (AssetSold same_asset_trade) empty_store))))"
  by (simp add: GetCreateAssetID_def issue_def same_asset_trade_def empty_store_def)

theorem Trade_equal_identifiers_witness:
  "\<exists>r. Trade 7 1 (AccountId ''GBOB'') same_asset_trade 0 (NewIngestion empty_store) =
          (None, (NewIngestion empty_store)
             \<lparr>DB := snd (GetCreateAssetID (AssetBought same_asset_trade)
                      (snd (GetCreateAssetID (AssetSold same_asset_trade) empty_store))),
              rowsToInsert := rowsToInsert (NewIngestion empty_store) @ [TradeRow r]\<rparr>)
      \<and> trd_BaseAssetID r = 1 \<and> trd_CounterAssetID r = 1 \<and> \<not> trd_BaseIsSeller r
      \<and> trd_BaseAddress r = ''GBOB'' \<and> trd_CounterAddress r = ''GALICE''
      \<and> trd_BaseAmount r = 250 \<and> trd_CounterAmount r = 100"
  using Trade_equal_identifiers[OF same_asset_sold same_asset_bought, where opid=7
      and order'=1 and buyer="AccountId ''GBOB''" and ledgerClosedAt=0]
  by (elim exE conjE) (rule exI, rule conjI, assumption, simp add: same_asset_trade_def)

text \<open>
  Claim C5. When the encoder rejects the details payload, \<open>Effect\<close> and \<open>Operation\<close>
  return the encoder's error itself and the writer is exactly as before the call; when
  the encoder succeeds, the call returns no error and the buffer grows by exactly one
  row, which carries the encoding.
\<close>

theorem Effect_Operation_encoding:
  "(json_Marshal details = Inl err \<longrightarrow>
      Effect json_Marshal address opid order' typ details ingest = (Some err, ingest)
    \<and> Operation json_Marshal id' txid order32 source typ32 details ingest = (Some err, ingest))
   \<and> (json_Marshal details = Inr djson \<longrightarrow>
      Effect json_Marshal address opid order' typ details ingest =
        (None, ingest\<lparr>rowsToInsert := rowsToInsert ingest @
           [EffectRow \<lparr>eff_AccountID = 0, eff_OperationID = opid, eff_Order = order',
                       eff_Type = typ, eff_Details = djson, eff_Address = address\<rparr>]\<rparr>)
    \<and> Operation json_Marshal id' txid order32 source typ32 details ingest =
        (None, ingest\<lparr>rowsToInsert := rowsToInsert ingest @
           [OperationRow \<lparr>op_ID = id', op_TxID = txid, op_Order = order32,
                          op_Source = Address source, op_Type = typ32,
                          op_Details = djson\<rparr>]\<rparr>))"
  by (simp add: Effect_def Operation_def)

theorem Effect_Operation_encoding_witness:
  "Effect example_Marshal ''GALICE'' 12 1 2 ''chan'' (NewIngestion example_store) =
     (Some (Error ''json: unsupported type: chan int''), NewIngestion example_store)
   \<and> Operation example_Marshal 12 3 1 (AccountId ''GALICE'') 0 ''chan''
       (NewIngestion example_store) =
     (Some (Error ''json: unsupported type: chan int''), NewIngestion example_store)
   \<and> rowsToInsert (snd (Effect example_Marshal ''GALICE'' 12 1 2 ''{}''
       (NewIngestion example_store))) =
     [EffectRow \<lparr>eff_AccountID = 0, eff_OperationID = 12, eff_Order = 1, eff_Type = 2,
                 eff_Details = ''{}'', eff_Address = ''GALICE''\<rparr>]
   \<and> rowsToInsert (snd (Operation example_Marshal 12 3 1 (AccountId ''GALICE'') 0 ''{}''
       (NewIngestion example_store))) =
     [OperationRow \<lparr>op_ID = 12, op_TxID = 3, op_Order = 1, op_Source = ''GALICE'',
                    op_Type = 0, op_Details = ''{}''\<rparr>]"
  using Effect_Operation_encoding[of example_Marshal "''chan''"
          "Error ''json: unsupported type: chan int''" "''GALICE''" 12 1 2
          "NewIngestion example_store" 12 3 1 "AccountId ''GALICE''" 0 "''{}''"]
        Effect_Operation_encoding[of example_Marshal "''{}''"
          "Error ''json: unsupported type: chan int''" "''GALICE''" 12 1 2
          "NewIngestion example_store" 12 3 1 "AccountId ''GALICE''" 0 "''{}''"]
  by (simp add: example_Marshal_def NewIngestion_def)

text \<open>
  Claim C4, as the code has it. \<open>Effect\<close>, \<open>Operation\<close>, \<open>OperationParticipants\<close>,
  \<open>TransactionParticipants\<close>, \<open>Ledger\<close> and \<open>Transaction\<close> change nothing but the row
  buffer, which they extend at its end: the store session, the builders and everything
  else of the writer stay as they were. \<open>Trade\<close> keeps the builders, but it calls the
  store: it resolves the sold asset and then the bought asset through
  \<open>GetCreateAssetID\<close>, stops without buffering at the first resolution that fails, and
  appends its one row after two successful resolutions.
\<close>

theorem emitters_frame:
  "(\<exists>rows. Effect json_Marshal address opid order' typ details ingest =
             (case json_Marshal details of Inl err \<Rightarrow> Some err | Inr djson \<Rightarrow> None,
              ingest\<lparr>rowsToInsert := rowsToInsert ingest @ rows\<rparr>))
   \<and> (\<exists>rows. Operation json_Marshal' id' txid order32 source typ32 details' ingest =
             (case json_Marshal' details' of Inl err \<Rightarrow> Some err | Inr djson \<Rightarrow> None,
              ingest\<lparr>rowsToInsert := rowsToInsert ingest @ rows\<rparr>))
   \<and> (\<exists>rows. OperationParticipants op aids ingest =
             (None, ingest\<lparr>rowsToInsert := rowsToInsert ingest @ rows\<rparr>))
   \<and> (\<exists>rows. TransactionParticipants txid' aids ingest =
             (None, ingest\<lparr>rowsToInsert := rowsToInsert ingest @ rows\<rparr>))
   \<and> (\<exists>rows. Ledger now1 now2 id' header txs ops ingest =
             ingest\<lparr>rowsToInsert := rowsToInsert ingest @ rows\<rparr>)
   \<and> (\<exists>rows. Transaction now1 now2 id' tx fee ingest =
             ingest\<lparr>rowsToInsert := rowsToInsert ingest @ rows\<rparr>)
   \<and> builders (snd (Trade opid order32 buyer trade ledgerClosedAt ingest)) = builders ingest
   \<and> assetStats (snd (Trade opid order32 buyer trade ledgerClosedAt ingest)) = assetStats ingest
   \<and> ((\<exists>e. fst (Trade opid order32 buyer trade ledgerClosedAt ingest) =
               Some (Wrap e ''failed to get sold asset id'')
           \<and> calls (DB (snd (Trade opid order32 buyer trade ledgerClosedAt ingest))) =
               calls (DB ingest) @ [(CallGetCreateAssetID (AssetSold trade), Some e)]
           \<and> rowsToInsert (snd (Trade opid order32 buyer trade ledgerClosedAt ingest)) =
               rowsToInsert ingest)
      \<or> (\<exists>e. fst (Trade opid order32 buyer trade ledgerClosedAt ingest) =
               Some (Wrap e ''failed to get bought asset id'')
           \<and> calls (DB (snd (Trade opid order32 buyer trade ledgerClosedAt ingest))) =
               calls (DB ingest) @ [(CallGetCreateAssetID (AssetSold trade), None),
                                    (CallGetCreateAssetID (AssetBought trade), Some e)]
           \<and> rowsToInsert (snd (Trade opid order32 buyer trade ledgerClosedAt ingest)) =
               rowsToInsert ingest)
      \<or> (\<exists>r. fst (Trade opid order32 buyer trade ledgerClosedAt ingest) = None
           \<and> calls (DB (snd (Trade opid order32 buyer trade ledgerClosedAt ingest))) =
               calls (DB ingest) @ [(CallGetCreateAssetID (AssetSold trade), None),
                                    (CallGetCreateAssetID (AssetBought trade), None)]
           \<and> rowsToInsert (snd (Trade opid order32 buyer trade ledgerClosedAt ingest)) =
               rowsToInsert ingest @ [TradeRow r]))"
proof -
  have e: "\<exists>rows. Effect json_Marshal address opid order' typ details ingest =
             (case json_Marshal details of Inl err \<Rightarrow> Some err | Inr djson \<Rightarrow> None,
              ingest\<lparr>rowsToInsert := rowsToInsert ingest @ rows\<rparr>)"
  proof (cases "json_Marshal details")
    case (Inl e) then show ?thesis by (intro exI[of _ "[]"]) (simp add: Effect_def)
  next
    case (Inr d) then show ?thesis by (auto simp: Effect_def)
  qed
  have o: "\<exists>rows. Operation json_Marshal' id' txid order32 source typ32 details' ingest =
             (case json_Marshal' details' of Inl err \<Rightarrow> Some err | Inr djson \<Rightarrow> None,
              ingest\<lparr>rowsToInsert := rowsToInsert ingest @ rows\<rparr>)"
  proof (cases "json_Marshal' details'")
    case (Inl e) then show ?thesis by (intro exI[of _ "[]"]) (simp add: Operation_def)
  next
    case (Inr d) then show ?thesis by (auto simp: Operation_def)
  qed
  have op: "\<exists>rows. OperationParticipants op aids ingest =
             (None, ingest\<lparr>rowsToInsert := rowsToInsert ingest @ rows\<rparr>)"
    by (auto simp: OperationParticipants_def fold_append_rows)
  have tp: "\<exists>rows. TransactionParticipants txid' aids ingest =
             (None, ingest\<lparr>rowsToInsert := rowsToInsert ingest @ rows\<rparr>)"
    by (auto simp: TransactionParticipants_def fold_append_rows)
  have l: "\<exists>rows. Ledger now1 now2 id' header txs ops ingest =
             ingest\<lparr>rowsToInsert := rowsToInsert ingest @ rows\<rparr>"
    by (auto simp: Ledger_def)
  have t: "\<exists>rows. Transaction now1 now2 id' tx fee ingest =
             ingest\<lparr>rowsToInsert := rowsToInsert ingest @ rows\<rparr>"
    by (auto simp: Transaction_def)
  from e o op tp l t Trade_frame[of opid order32 buyer trade ledgerClosedAt ingest]
  show ?thesis by (intro conjI) (elim conjE, assumption)+
qed

text \<open>
  Claim C4 as stated fails for \<open>Trade\<close>: on a store that knows neither asset, the call
  queries the store twice and creates two asset records.
\<close>

theorem Trade_touches_store:
  "DB (snd (Trade 7 1 (AccountId ''GBOB'') example_trade 0 (NewIngestion empty_store)))
     \<noteq> DB (NewIngestion empty_store)
   \<and> calls (DB (NewIngestion empty_store)) = []
   \<and> history_assets (DB (NewIngestion empty_store)) = []
   \<and> calls (DB (snd (Trade 7 1 (AccountId ''GBOB'') example_trade 0
        (NewIngestion empty_store)))) =
       [(CallGetCreateAssetID (AssetCreditAlphanum4 ''EUR'' ''GISSUER''), None),
        (CallGetCreateAssetID (AssetCreditAlphanum4 ''USD'' ''GISSUER''), None)]
   \<and> history_assets (DB (snd (Trade 7 1 (AccountId ''GBOB'') example_trade 0
        (NewIngestion empty_store)))) =
       [(AssetCreditAlphanum4 ''EUR'' ''GISSUER'', 1),
        (AssetCreditAlphanum4 ''USD'' ''GISSUER'', 2)]"
  by (simp add: Trade_def GetCreateAssetID_def issue_def example_trade_def empty_store_def
      NewIngestion_def word_sless_alt)

subsection \<open>Flush and account resolution\<close>

lemma distinct_table_names: "distinct table_names"
  by (simp add: table_names_def EffectsTableName_def LedgersTableName_def
      OperationParticipantsTableName_def OperationsTableName_def TradesTableName_def
      TransactionParticipantsTableName_def TransactionsTableName_def)

lemmas table_name_neqs =
  distinct_table_names[unfolded table_names_def, simplified]

lemma builders_createInsertBuilders:
  "builders (createInsertBuilders ingest) = fresh_builders"
  by (simp add: fresh_builders_def createInsertBuilders_def Let_def
      createEffectsInsertBuilder_def createLedgersInsertBuilder_def
      createOperationParticipantsInsertBuilder_def createOperationsInsertBuilder_def
      createTradesInsertBuilder_def createTransactionParticipantsInsertBuilder_def
      createTransactionsInsertBuilder_def)

lemma dom_fresh_builders: "dom fresh_builders = set table_names"
  by (auto simp add: fresh_builders_def createInsertBuilders_def Let_def table_names_def
      createEffectsInsertBuilder_def createLedgersInsertBuilder_def
      createOperationParticipantsInsertBuilder_def createOperationsInsertBuilder_def
      createTradesInsertBuilder_def createTransactionParticipantsInsertBuilder_def
      createTransactionsInsertBuilder_def split: if_splits)

lemma fresh_builders_Some:
  "fresh_builders t = Some f \<Longrightarrow> into f = t \<and> tuples f = []"
  by (auto simp add: fresh_builders_def createInsertBuilders_def Let_def
      createEffectsInsertBuilder_def createLedgersInsertBuilder_def
      createOperationParticipantsInsertBuilder_def createOperationsInsertBuilder_def
      createTradesInsertBuilder_def createTransactionParticipantsInsertBuilder_def
      createTransactionsInsertBuilder_def Insert_def Columns_def
      EffectsTableName_def LedgersTableName_def
      OperationParticipantsTableName_def OperationsTableName_def TradesTableName_def
      TransactionParticipantsTableName_def TransactionsTableName_def split: if_splits)

lemma fresh_builders_columns:
  "fresh_builders t = Some f \<Longrightarrow> columns f \<noteq> []"
  by (auto simp add: fresh_builders_def createInsertBuilders_def Let_def
      createEffectsInsertBuilder_def createLedgersInsertBuilder_def
      createOperationParticipantsInsertBuilder_def createOperationsInsertBuilder_def
      createTradesInsertBuilder_def createTransactionParticipantsInsertBuilder_def
      createTransactionsInsertBuilder_def Insert_def Columns_def split: if_splits)

lemma GetTableName_table_names: "GetTableName r \<in> set table_names"
  by (cases r) (simp_all add: table_names_def)

lemma length_GetParams: "0 < length (GetParams r) \<and> length (GetParams r) \<le> 18"
  by (cases r) simp_all

lemma createInsertBuilderByTableName_fresh:
  "t \<in> set table_names \<Longrightarrow>
   createInsertBuilderByTableName t ingest =
     (None, ingest\<lparr>builders := (builders ingest)(t := fresh_builders t)\<rparr>)"
  using table_name_neqs
  by (auto simp add: table_names_def createInsertBuilderByTableName_def
      fresh_builders_def createInsertBuilders_def Let_def
      createEffectsInsertBuilder_def createLedgersInsertBuilder_def
      createOperationParticipantsInsertBuilder_def createOperationsInsertBuilder_def
      createTradesInsertBuilder_def createTransactionParticipantsInsertBuilder_def
      createTransactionsInsertBuilder_def
      LedgersTableName_def[symmetric] TransactionsTableName_def[symmetric])

lemma count_of_update:
  "count_of (AList.update k v pc) t = (if t = k then v else count_of pc t)"
  by (simp add: count_of_def update_conv)

lemma executed_append_call:
  "executed (s\<lparr>calls := calls s @ [(c, r)]\<rparr>) =
     executed s @ (case c of CallExec b \<Rightarrow> [b] | _ \<Rightarrow> [])"
  by (simp add: executed_def)

lemma Flush_inserts_below:
  assumes "builders ingest (GetTableName row) = Some b"
    and "count_of pc (GetTableName row) + length (GetParams row) \<le> 65000"
  shows "Flush_inserts (row # rows) pc ingest =
     Flush_inserts rows
       (AList.update (GetTableName row)
          (count_of pc (GetTableName row) + length (GetParams row)) pc)
       (ingest\<lparr>builders := (builders ingest)(GetTableName row \<mapsto> Values (GetParams row) b)\<rparr>)"
  using assms by (simp add: Let_def count_of_update)

lemma Flush_inserts_above_ok:
  assumes "builders ingest (GetTableName row) = Some b"
    and "65000 < count_of pc (GetTableName row) + length (GetParams row)"
    and "fault (DB ingest) (calls (DB ingest)) (CallExec (Values (GetParams row) b)) = None"
  shows "Flush_inserts (row # rows) pc ingest =
     Flush_inserts rows (AList.update (GetTableName row) 0 pc)
       (ingest\<lparr>DB := (DB ingest)\<lparr>calls := calls (DB ingest) @
                    [(CallExec (Values (GetParams row) b), None)]\<rparr>,
               builders := (builders ingest)(GetTableName row :=
                    fresh_builders (GetTableName row))\<rparr>)"
  using assms GetTableName_table_names[of row]
  by (simp add: Let_def count_of_update builder_at_def Exec_def issue_def
      createInsertBuilderByTableName_fresh)

lemma Flush_inserts_above_fail:
  assumes "builders ingest (GetTableName row) = Some b"
    and "65000 < count_of pc (GetTableName row) + length (GetParams row)"
    and "fault (DB ingest) (calls (DB ingest)) (CallExec (Values (GetParams row) b)) = Some e"
  shows "Flush_inserts (row # rows) pc ingest =
     (Some (Wrap e (''Error adding values while inserting to '' @ GetTableName row)),
      AList.update (GetTableName row)
          (count_of pc (GetTableName row) + length (GetParams row)) pc,
      ingest\<lparr>DB := (DB ingest)\<lparr>calls := calls (DB ingest) @
                    [(CallExec (Values (GetParams row) b), Some e)]\<rparr>,
              builders := (builders ingest)(GetTableName row \<mapsto> Values (GetParams row) b)\<rparr>)"
  using assms
  by (simp add: Let_def count_of_update builder_at_def Exec_def issue_def)

lemma pending_ok_builder:
  assumes "pending_ok pc ingest"
  shows "\<exists>b. builders ingest (GetTableName row) = Some b"
proof -
  have "GetTableName row \<in> dom fresh_builders"
    by (simp add: dom_fresh_builders GetTableName_table_names)
  with assms have "GetTableName row \<in> dom (builders ingest)"
    by (simp add: pending_ok_def)
  then show ?thesis by auto
qed

lemma pending_ok_SomeD:
  assumes "pending_ok pc ingest" and "builders ingest t = Some b"
  shows "\<exists>f. fresh_builders t = Some f \<and> b = f\<lparr>tuples := tuples b\<rparr>"
    and "count_of pc t = bound_parameters b"
    and "bound_parameters b \<le> 65000"
    and "[] \<notin> set (tuples b)"
  using assms unfolding pending_ok_def by blast+

lemma pending_ok_below:
  assumes ok: "pending_ok pc ingest"
    and b: "builders ingest t = Some b"
    and le: "count_of pc t + length ps \<le> 65000"
    and ne: "ps \<noteq> []"
  shows "pending_ok (AList.update t (count_of pc t + length ps) pc)
           (ingest\<lparr>builders := (builders ingest)(t \<mapsto> Values ps b)\<rparr>)"
proof -
  note bt = pending_ok_SomeD[OF ok b]
  from bt(1) obtain f where f: "fresh_builders t = Some f" "b = f\<lparr>tuples := tuples b\<rparr>" by blast
  have v: "Values ps b = f\<lparr>tuples := tuples (Values ps b)\<rparr>"
    by (subst f(2)) (simp add: Values_def)
  have bp: "bound_parameters (Values ps b) = bound_parameters b + length ps"
    by (simp add: bound_parameters_def Values_def)
  have ne': "[] \<notin> set (tuples (Values ps b))" using bt(4) ne by (auto simp: Values_def)
  have d: "distinct (map fst (AList.update t (count_of pc t + length ps) pc))"
    using ok by (simp add: pending_ok_def distinct_update)
  have dm: "dom ((builders ingest)(t \<mapsto> Values ps b)) = dom fresh_builders"
    using ok b by (auto simp: pending_ok_def)
  have none: "\<forall>t'. ((builders ingest)(t \<mapsto> Values ps b)) t' = None \<longrightarrow>
      count_of (AList.update t (count_of pc t + length ps) pc) t' = 0"
    using ok by (auto simp: pending_ok_def count_of_update)
  have some: "\<forall>t' b'. ((builders ingest)(t \<mapsto> Values ps b)) t' = Some b' \<longrightarrow>
        (\<exists>f. fresh_builders t' = Some f \<and> b' = f\<lparr>tuples := tuples b'\<rparr>)
        \<and> count_of (AList.update t (count_of pc t + length ps) pc) t' = bound_parameters b'
        \<and> bound_parameters b' \<le> 65000
        \<and> [] \<notin> set (tuples b')"
  proof (intro allI impI)
    fix t' b'
    assume a: "((builders ingest)(t \<mapsto> Values ps b)) t' = Some b'"
    show "(\<exists>f. fresh_builders t' = Some f \<and> b' = f\<lparr>tuples := tuples b'\<rparr>)
        \<and> count_of (AList.update t (count_of pc t + length ps) pc) t' = bound_parameters b'
        \<and> bound_parameters b' \<le> 65000
        \<and> [] \<notin> set (tuples b')"
    proof (cases "t' = t")
      case True
      with a have "b' = Values ps b" by simp
      with True f(1) v bp bt(2) le ne' show ?thesis
        by (simp add: count_of_update)
    next
      case False
      with a have "builders ingest t' = Some b'" by simp
      from pending_ok_SomeD[OF ok this] False show ?thesis
        by (simp add: count_of_update)
    qed
  qed
  show ?thesis
    unfolding pending_ok_def using d dm none some by simp
qed

lemma pending_ok_reset:
  assumes ok: "pending_ok pc ingest"
  shows "pending_ok (AList.update t 0 pc)
           (ingest\<lparr>DB := db, builders := (builders ingest)(t := fresh_builders t)\<rparr>)"
proof -
  have d: "distinct (map fst (AList.update t 0 pc))"
    using ok by (simp add: pending_ok_def distinct_update)
  have dm: "dom ((builders ingest)(t := fresh_builders t)) = dom fresh_builders"
    using ok by (auto simp: pending_ok_def split: if_splits)
  have none: "\<forall>t'. ((builders ingest)(t := fresh_builders t)) t' = None \<longrightarrow>
      count_of (AList.update t 0 pc) t' = 0"
    using ok by (auto simp: pending_ok_def count_of_update)
  have some: "\<forall>t' b'. ((builders ingest)(t := fresh_builders t)) t' = Some b' \<longrightarrow>
        (\<exists>f. fresh_builders t' = Some f \<and> b' = f\<lparr>tuples := tuples b'\<rparr>)
        \<and> count_of (AList.update t 0 pc) t' = bound_parameters b'
        \<and> bound_parameters b' \<le> 65000
        \<and> [] \<notin> set (tuples b')"
  proof (intro allI impI)
    fix t' b'
    assume a: "((builders ingest)(t := fresh_builders t)) t' = Some b'"
    show "(\<exists>f. fresh_builders t' = Some f \<and> b' = f\<lparr>tuples := tuples b'\<rparr>)
        \<and> count_of (AList.update t 0 pc) t' = bound_parameters b'
        \<and> bound_parameters b' \<le> 65000
        \<and> [] \<notin> set (tuples b')"
    proof (cases "t' = t")
      case True
      with a have fb: "fresh_builders t = Some b'" by simp
      from fresh_builders_Some[OF fb] True fb show ?thesis
        by (simp add: count_of_update bound_parameters_def)
    next
      case False
      with a have "builders ingest t' = Some b'" by simp
      from pending_ok_SomeD[OF ok this] False show ?thesis
        by (simp add: count_of_update)
    qed
  qed
  show ?thesis
    unfolding pending_ok_def using d dm none some by simp
qed

lemma table_tuples_simps:
  "table_tuples t [] = []"
  "table_tuples t (b # bs) = (if into b = t then tuples b else []) @ table_tuples t bs"
  "table_tuples t (bs @ cs) = table_tuples t bs @ table_tuples t cs"
  by (simp_all add: table_tuples_def)

lemma rows_for_simps:
  "rows_for t [] = []"
  "rows_for t (r # rs) = (if GetTableName r = t then [r] else []) @ rows_for t rs"
  by (simp_all add: rows_for_def)

lemma pending_ok_into:
  assumes "pending_ok pc ingest" and "builders ingest t = Some b"
  shows "into b = t"
proof -
  from pending_ok_SomeD(1)[OF assms] obtain f where f: "fresh_builders t = Some f"
    "b = f\<lparr>tuples := tuples b\<rparr>" by blast
  have "into b = into f" by (subst f(2)) simp
  with fresh_builders_Some[OF f(1)] show ?thesis by simp
qed

lemma Flush_inserts_inv:
  assumes "pending_ok pc ingest" and "Flush_inserts rows pc ingest = (r, pc', ingest')"
  shows "\<exists>new. executed (DB ingest') = executed (DB ingest) @ new
      \<and> (\<forall>b\<in>set new. bound_parameters b \<le> 65018)
      \<and> (r = None \<longrightarrow> pending_ok pc' ingest'
           \<and> (\<forall>t. table_tuples t new @ tuples (builder_at ingest' t) =
                   tuples (builder_at ingest t) @ map GetParams (rows_for t rows)))
      \<and> (\<forall>e. r = Some e \<longrightarrow> (\<exists>e' m. e = Wrap e' m))
      \<and> rowsToInsert ingest' = rowsToInsert ingest \<and> assetStats ingest' = assetStats ingest
      \<and> DB ingest' = (DB ingest)\<lparr>calls := calls (DB ingest')\<rparr>"
  using assms
proof (induction rows arbitrary: pc ingest)
  case Nil
  then show ?case by (intro exI[of _ "[]"]) (auto simp: rows_for_simps table_tuples_simps)
next
  case (Cons row rows)
  let ?t = "GetTableName row"
  let ?ps = "GetParams row"
  note ok = Cons.prems(1)
  from pending_ok_builder[OF ok] obtain b where b: "builders ingest ?t = Some b" by blast
  note bt = pending_ok_SomeD[OF ok b]
  have into_b: "into b = ?t" by (rule pending_ok_into[OF ok b])
  have ps: "?ps \<noteq> []" "length ?ps \<le> 18" using length_GetParams[of row] by auto
  show ?case
  proof (cases "count_of pc ?t + length ?ps \<le> 65000")
    case True
    let ?pc1 = "AList.update ?t (count_of pc ?t + length ?ps) pc"
    let ?i1 = "ingest\<lparr>builders := (builders ingest)(?t \<mapsto> Values ?ps b)\<rparr>"
    have ok1: "pending_ok ?pc1 ?i1" by (rule pending_ok_below[OF ok b True ps(1)])
    have run: "Flush_inserts rows ?pc1 ?i1 = (r, pc', ingest')"
      using Cons.prems(2) unfolding Flush_inserts_below[OF b True] .
    from Cons.IH[OF ok1 run] obtain new where new:
      "executed (DB ingest') = executed (DB ?i1) @ new"
      "\<forall>b\<in>set new. bound_parameters b \<le> 65018"
      "r = None \<longrightarrow> pending_ok pc' ingest'
           \<and> (\<forall>t. table_tuples t new @ tuples (builder_at ingest' t) =
                   tuples (builder_at ?i1 t) @ map GetParams (rows_for t rows))"
      "\<forall>e. r = Some e \<longrightarrow> (\<exists>e' m. e = Wrap e' m)"
      "rowsToInsert ingest' = rowsToInsert ?i1 \<and> assetStats ingest' = assetStats ?i1"
      "DB ingest' = (DB ?i1)\<lparr>calls := calls (DB ingest')\<rparr>"
      by blast
    have bat: "\<And>t. tuples (builder_at ?i1 t) @ map GetParams (rows_for t rows) =
        tuples (builder_at ingest t) @ map GetParams (rows_for t (row # rows))"
      using b by (auto simp add: builder_at_def rows_for_simps Values_def)
    show ?thesis
      using new bat by (intro exI[of _ new]) simp
  next
    case False
    then have above: "65000 < count_of pc ?t + length ?ps" by simp
    have bound: "bound_parameters (Values ?ps b) \<le> 65018"
      using bt(2,3) ps(2) by (simp add: bound_parameters_def Values_def)
    show ?thesis
    proof (cases "fault (DB ingest) (calls (DB ingest)) (CallExec (Values ?ps b))")
      case (Some e)
      have res: "(r, pc', ingest') =
        (Some (Wrap e (''Error adding values while inserting to '' @ ?t)),
         AList.update ?t (count_of pc ?t + length ?ps) pc,
         ingest\<lparr>DB := (DB ingest)\<lparr>calls := calls (DB ingest) @
                    [(CallExec (Values ?ps b), Some e)]\<rparr>,
              builders := (builders ingest)(?t \<mapsto> Values ?ps b)\<rparr>)"
        using Cons.prems(2) unfolding Flush_inserts_above_fail[OF b above Some] by simp
      show ?thesis
        using res bound
        by (intro exI[of _ "[Values ?ps b]"]) (simp add: executed_append_call)
    next
      case None
      let ?pc2 = "AList.update ?t 0 pc"
      let ?db2 = "(DB ingest)\<lparr>calls := calls (DB ingest) @ [(CallExec (Values ?ps b), None)]\<rparr>"
      let ?i2 = "ingest\<lparr>DB := ?db2, builders := (builders ingest)(?t := fresh_builders ?t)\<rparr>"
      have ok2: "pending_ok ?pc2 ?i2" by (rule pending_ok_reset[OF ok])
      have run: "Flush_inserts rows ?pc2 ?i2 = (r, pc', ingest')"
        using Cons.prems(2) unfolding Flush_inserts_above_ok[OF b above None] .
      from Cons.IH[OF ok2 run] obtain new where new:
        "executed (DB ingest') = executed (DB ?i2) @ new"
        "\<forall>b\<in>set new. bound_parameters b \<le> 65018"
        "r = None \<longrightarrow> pending_ok pc' ingest'
           \<and> (\<forall>t. table_tuples t new @ tuples (builder_at ingest' t) =
                   tuples (builder_at ?i2 t) @ map GetParams (rows_for t rows))"
        "\<forall>e. r = Some e \<longrightarrow> (\<exists>e' m. e = Wrap e' m)"
        "rowsToInsert ingest' = rowsToInsert ?i2 \<and> assetStats ingest' = assetStats ?i2"
        "DB ingest' = (DB ?i2)\<lparr>calls := calls (DB ingest')\<rparr>"
        by blast
      from bt(1) obtain f where f: "fresh_builders ?t = Some f" by blast
      have ex: "executed (DB ?i2) = executed (DB ingest) @ [Values ?ps b]"
        by (simp add: executed_append_call)
      have bat: "\<And>t. table_tuples t [Values ?ps b] @ tuples (builder_at ?i2 t)
            @ map GetParams (rows_for t rows) =
          tuples (builder_at ingest t) @ map GetParams (rows_for t (row # rows))"
        using b f fresh_builders_Some[OF f] into_b
        by (auto simp add: builder_at_def rows_for_simps Values_def table_tuples_simps)
      have tt: "\<And>t. table_tuples t ([Values ?ps b] @ new) @ tuples (builder_at ingest' t) =
          table_tuples t [Values ?ps b] @ (table_tuples t new @ tuples (builder_at ingest' t))"
        by (simp add: table_tuples_simps)
      show ?thesis
      proof (intro exI[of _ "[Values ?ps b] @ new"] conjI)
        show "executed (DB ingest') = executed (DB ingest) @ [Values ?ps b] @ new"
          using new(1) ex by simp
        show "\<forall>b\<in>set ([Values ?ps b] @ new). bound_parameters b \<le> 65018"
          using new(2) bound by simp
        show "r = None \<longrightarrow> pending_ok pc' ingest'
           \<and> (\<forall>t. table_tuples t ([Values ?ps b] @ new) @ tuples (builder_at ingest' t) =
                   tuples (builder_at ingest t) @ map GetParams (rows_for t (row # rows)))"
          using new(3) bat unfolding tt by simp
        show "\<forall>e. r = Some e \<longrightarrow> (\<exists>e' m. e = Wrap e' m)" by (rule new(4))
        show "rowsToInsert ingest' = rowsToInsert ingest" using new(5) by simp
        show "assetStats ingest' = assetStats ingest" using new(5) by simp
        show "DB ingest' = (DB ingest)\<lparr>calls := calls (DB ingest')\<rparr>"
          by (subst new(6)) simp
      qed
    qed
  qed
qed










lemma pending_ok_fresh:
  assumes "builders ingest = fresh_builders"
  shows "pending_ok [] ingest"
  unfolding pending_ok_def using assms
  by (auto simp: count_of_def bound_parameters_def dest: fresh_builders_Some)



lemma commit_frame:
  assumes "commit ingest = (r, i1)"
  shows "builders i1 = builders ingest" and "assetStats i1 = assetStats ingest"
    and "rowsToInsert i1 = rowsToInsert ingest"
    and "executed (DB i1) = executed (DB ingest)"
    and "calls (DB i1) = calls (DB ingest) @ [(CallCommit, r)]"
  using assms
  by (auto simp: commit_def Commit_def issue_def Let_def executed_def split: option.splits)

lemma createInsertBuilders_frame:
  "DB (createInsertBuilders ingest) = DB ingest"
  "rowsToInsert (createInsertBuilders ingest) = rowsToInsert ingest"
  by (simp_all add: createInsertBuilders_def Let_def
      createEffectsInsertBuilder_def createLedgersInsertBuilder_def
      createOperationParticipantsInsertBuilder_def createOperationsInsertBuilder_def
      createTradesInsertBuilder_def createTransactionParticipantsInsertBuilder_def
      createTransactionsInsertBuilder_def)

lemma Start_frame:
  assumes "Start ingest = (r, i1)"
  shows "executed (DB i1) = executed (DB ingest)"
    and "calls (DB i1) = calls (DB ingest) @ [(CallBegin, r)]"
    and "r = None \<Longrightarrow> builders i1 = fresh_builders \<and> rowsToInsert i1 = []"
  using assms
  by (auto simp: Start_def Begin_def issue_def Let_def executed_def
      builders_createInsertBuilders createInsertBuilders_frame split: option.splits)




lemma started_writer_eq:
  "started_writer =
     \<lparr>DB = example_store\<lparr>calls := [(CallBegin, None)]\<rparr>, builders = fresh_builders,
      rowsToInsert = [],
      assetStats = Columns [''id'', ''amount'', ''num_accounts'', ''flags'', ''toml'']
              (Insert ''asset_stats'')\<rparr>"
  by (simp add: started_writer_def Start_def Begin_def issue_def NewIngestion_def
      example_store_def fresh_builders_def createInsertBuilders_def Let_def
      createEffectsInsertBuilder_def createLedgersInsertBuilder_def
      createOperationParticipantsInsertBuilder_def createOperationsInsertBuilder_def
      createTradesInsertBuilder_def createTransactionParticipantsInsertBuilder_def
      createTransactionsInsertBuilder_def empty_store_def)

lemma example_buffered_eq:
  "example_buffered = started_writer\<lparr>rowsToInsert :=
     [EffectRow \<lparr>eff_AccountID = 0, eff_OperationID = 12, eff_Order = 1, eff_Type = 2,
        eff_Details = ''{}'', eff_Address = ''GALICE''\<rparr>,
      OperationParticipantRow \<lparr>opp_OperationID = 12, opp_AccountID = 0, opp_Address = ''GALICE''\<rparr>,
      OperationParticipantRow \<lparr>opp_OperationID = 12, opp_AccountID = 0, opp_Address = ''GBOB''\<rparr>]\<rparr>"
  by (simp add: example_buffered_def started_writer_eq Effect_def OperationParticipants_def
      example_Marshal_def)

lemma example_resolved:
  "UpdateAccountIDs (\<lambda>ks. ks) example_buffered =
     (None, example_buffered\<lparr>
        DB := (DB example_buffered)\<lparr>
           calls := [(CallBegin, None), (CallAccountsByAddresses [''GALICE'', ''GBOB''], None),
                     (CallCreateAccounts [''GBOB''], None)],
           history_accounts := [\<lparr>acc_ID = 1, acc_Address = ''GALICE''\<rparr>,
                                \<lparr>acc_ID = 2, acc_Address = ''GBOB''\<rparr>],
           next_account_id := 3\<rparr>,
        rowsToInsert :=
     [EffectRow \<lparr>eff_AccountID = 1, eff_OperationID = 12, eff_Order = 1, eff_Type = 2,
        eff_Details = ''{}'', eff_Address = ''GALICE''\<rparr>,
      OperationParticipantRow \<lparr>opp_OperationID = 12, opp_AccountID = 1, opp_Address = ''GALICE''\<rparr>,
      OperationParticipantRow \<lparr>opp_OperationID = 12, opp_AccountID = 2, opp_Address = ''GBOB''\<rparr>]\<rparr>)"
  by (simp add: example_buffered_eq started_writer_eq UpdateAccountIDs_def
      collect_addresses_def collect_address_def AccountsByAddresses_def CreateAccounts_def
      issue_def store_ids_def lookup_id_def example_store_def Let_def)

lemmas table_name_defs =
  EffectsTableName_def LedgersTableName_def OperationParticipantsTableName_def
  OperationsTableName_def TradesTableName_def TransactionParticipantsTableName_def
  TransactionsTableName_def

lemmas create_builder_defs =
  createInsertBuilders_def createEffectsInsertBuilder_def createLedgersInsertBuilder_def
  createOperationParticipantsInsertBuilder_def createOperationsInsertBuilder_def
  createTradesInsertBuilder_def createTransactionParticipantsInsertBuilder_def
  createTransactionsInsertBuilder_def

lemma example_Flush:
  "fst (Flush (\<lambda>ks. ks) (\<lambda>ks. ks) example_buffered) = None
   \<and> calls (DB (snd (Flush (\<lambda>ks. ks) (\<lambda>ks. ks) example_buffered))) =
     [(CallBegin, None), (CallAccountsByAddresses [''GALICE'', ''GBOB''], None),
      (CallCreateAccounts [''GBOB''], None),
      (CallExec
        \<lparr>into = ''history_effects'',
         columns = [''history_account_id'', ''history_operation_id'', ''\"order\"'',
                    ''type'', ''details''],
         tuples = [ [PInt64 1, PInt64 12, PInt 1, PInt 2, PBytes ''{}'']]\<rparr>, None),
      (CallExec
        \<lparr>into = ''history_operation_participants'',
         columns = [''history_operation_id'', ''history_account_id''],
         tuples = [ [PInt64 12, PInt64 1], [PInt64 12, PInt64 2]]\<rparr>, None),
      (CallCommit, None), (CallBegin, None)]"
  by (simp only: Flush_def example_resolved)
     (simp add: example_buffered_eq started_writer_eq
      fresh_builders_def create_builder_defs NewIngestion_def table_name_defs
      Let_def count_of_def builder_at_def Values_def Insert_def Columns_def
      Exec_def issue_def example_store_def empty_store_def
      commit_def Commit_def Start_def Begin_def)

lemma lookup_id_update:
  "lookup_id (AList.update k v m) a = (if a = k then v else lookup_id m a)"
  by (simp add: lookup_id_def update_conv)

lemma fold_collect_address:
  assumes "distinct addrs"
  shows "\<exists>addrs'. fold collect_address as (map (\<lambda>a. (a, 0)) addrs, addrs) =
            (map (\<lambda>a. (a, 0)) addrs', addrs')
          \<and> distinct addrs' \<and> set addrs' = set addrs \<union> set as"
  using assms
proof (induction as arbitrary: addrs)
  case Nil
  then show ?case by simp
next
  case (Cons a as)
  show ?case
  proof (cases "a \<in> set addrs")
    case True
    then have u: "AList.update a 0 (map (\<lambda>a. (a, 0::int64)) addrs) = map (\<lambda>a. (a, 0)) addrs"
      by (induction addrs) auto
    from True have m: "map_of (map (\<lambda>a. (a, 0::int64)) addrs) a \<noteq> None"
      by (simp add: map_of_eq_None_iff image_image)
    have step: "collect_address a (map (\<lambda>a. (a, 0)) addrs, addrs) = (map (\<lambda>a. (a, 0)) addrs, addrs)"
      using u m by (simp add: collect_address_def)
    from Cons.IH[OF Cons.prems] True show ?thesis
      by (auto simp: step)
  next
    case False
    then have u: "AList.update a 0 (map (\<lambda>a. (a, 0::int64)) addrs) = map (\<lambda>a. (a, 0)) (addrs @ [a])"
      by (induction addrs) auto
    from False have m: "map_of (map (\<lambda>a. (a, 0::int64)) addrs) a = None"
      by (simp add: map_of_eq_None_iff image_image)
    have step: "collect_address a (map (\<lambda>a. (a, 0)) addrs, addrs) =
        (map (\<lambda>a. (a, 0)) (addrs @ [a]), addrs @ [a])"
      using u m by (simp add: collect_address_def)
    have d: "distinct (addrs @ [a])" using Cons.prems False by simp
    from Cons.IH[OF d] show ?thesis
      by (auto simp: step)
  qed
qed

lemma fold_fold_concat:
  "fold (\<lambda>row acc. fold f (g row) acc) rows s = fold f (concat (map g rows)) s"
  by (induction rows arbitrary: s) simp_all

lemma collect_addresses_flat:
  "collect_addresses rows = fold collect_address (referenced_addresses rows) ([], [])"
  by (simp add: collect_addresses_def referenced_addresses_def fold_fold_concat)

lemma collect_addresses_result:
  "\<exists>addresses. collect_addresses rows = (map (\<lambda>a. (a, 0)) addresses, addresses)
      \<and> distinct addresses \<and> set addresses = set (referenced_addresses rows)"
  using fold_collect_address[of "[]" "referenced_addresses rows"]
  by (simp add: collect_addresses_flat)

lemma store_ids_keys:
  "set (map fst (store_ids xs m)) = set (map fst m) \<union> acc_Address ` set xs"
  unfolding store_ids_def
  by (induction xs arbitrary: m) (auto simp: dom_update[unfolded dom_map_of_conv_image_fst] image_iff)

lemma store_ids_distinct:
  "distinct (map fst m) \<Longrightarrow> distinct (map fst (store_ids xs m))"
  unfolding store_ids_def
  by (induction xs arbitrary: m) (auto simp: distinct_update)

lemma store_ids_notin:
  "a \<notin> acc_Address ` set xs \<Longrightarrow> lookup_id (store_ids xs m) a = lookup_id m a"
  unfolding store_ids_def
  by (induction xs arbitrary: m) (auto simp: lookup_id_update)

lemma store_ids_in:
  "distinct (map acc_Address xs) \<Longrightarrow> x \<in> set xs \<Longrightarrow>
     lookup_id (store_ids xs m) (acc_Address x) = acc_ID x"
proof (induction xs arbitrary: m)
  case Nil
  then show ?case by simp
next
  case (Cons y ys)
  show ?case
  proof (cases "x = y")
    case True
    have "acc_Address y \<notin> acc_Address ` set ys" using Cons.prems(1) by auto
    from store_ids_notin[OF this] True show ?thesis
      by (simp add: store_ids_def lookup_id_update)
  next
    case False
    with Cons.prems have "x \<in> set ys" "distinct (map acc_Address ys)" by auto
    from Cons.IH[OF this(2,1)] show ?thesis by (simp add: store_ids_def)
  qed
qed

lemma AccountsByAddresses_result:
  assumes "AccountsByAddresses as s = (r, s')"
  shows "(\<exists>e. r = Inl e) \<or>
         (r = Inr (filter (\<lambda>a. acc_Address a \<in> set as) (history_accounts s))
          \<and> history_accounts s' = history_accounts s)"
  using assms by (auto simp: AccountsByAddresses_def issue_def Let_def split: option.splits)

lemma CreateAccounts_result:
  assumes "CreateAccounts as s = (r, s')"
  shows "(\<exists>e. r = Inl e) \<or>
         (\<exists>created. r = Inr created \<and> map acc_Address created = as
            \<and> history_accounts s' = history_accounts s @ created)"
  using assms
  by (auto simp: CreateAccounts_def issue_def Let_def comp_def case_prod_beta
      split: option.splits)

text \<open>
  The store never allocates the identifier 0 as long as its counter is positive and does
  not wrap around: \<open>CreateAccounts\<close> is the only call that adds account records.
\<close>

lemma fresh_id_nonzero:
  assumes "0 < unat (n::int64)" and "unat n + i < 2 ^ 64"
  shows "n + of_nat i \<noteq> 0"
proof -
  have i: "unat (of_nat i :: int64) = i"
    using assms(2) by (simp add: unat_of_nat take_bit_nat_eq_self)
  have "unat (n + of_nat i) = unat n + unat (of_nat i :: int64)"
    using assms(2) i by (simp add: unat_add_lem[THEN iffD1])
  with assms(1) i have "0 < unat (n + of_nat i)" by simp
  then show ?thesis by (auto simp: unat_gt_0)
qed

lemma CreateAccounts_ids_nonzero:
  assumes c: "CreateAccounts addresses s = (Inr created, s')"
    and p: "0 < unat (next_account_id s)"
    and nw: "unat (next_account_id s) + length addresses \<le> 2 ^ 64"
  shows "\<forall>a\<in>set created. acc_ID a \<noteq> 0"
proof
  fix a assume a: "a \<in> set created"
  from c have cr: "created = map (\<lambda>(i, a). \<lparr>acc_ID = next_account_id s + of_nat i, acc_Address = a\<rparr>)
                             (enumerate 0 addresses)"
    by (auto simp: CreateAccounts_def issue_def Let_def split: option.splits)
  from a obtain i x where ix: "(i, x) \<in> set (enumerate 0 addresses)"
    "a = \<lparr>acc_ID = next_account_id s + of_nat i, acc_Address = x\<rparr>"
    unfolding cr by auto
  from ix(1) have "i < length addresses" by (simp add: in_set_enumerate_eq)
  with nw have "unat (next_account_id s) + i < 2 ^ 64" by simp
  from fresh_id_nonzero[OF p this] ix(2) show "acc_ID a \<noteq> 0" by simp
qed

lemma row_UpdateAccountIDs_no_addresses:
  "GetAddresses r = [] \<Longrightarrow> row_UpdateAccountIDs m r = r"
  by (cases r) simp_all

lemma UpdateAccountIDs_no_addresses:
  assumes "collect_addresses (rowsToInsert ingest) = (accounts, [])"
  shows "UpdateAccountIDs ra ingest = (None, ingest)"
  using assms by (simp add: UpdateAccountIDs_def)

lemma UpdateAccountIDs_unfold:
  assumes c: "collect_addresses (rowsToInsert ingest) = (accounts, addresses)"
    and ne: "addresses \<noteq> []"
    and ok: "UpdateAccountIDs ra ingest = (None, ingest')"
  shows "\<exists>dbAccounts db1. AccountsByAddresses addresses (DB ingest) = (Inr dbAccounts, db1)
     \<and> (let accounts1 = store_ids dbAccounts accounts;
             addresses1 = filter (\<lambda>address. lookup_id accounts1 address = 0)
                                 (ra (map fst accounts1))
         in if addresses1 = []
            then ingest' = ingest\<lparr>DB := db1,
                     rowsToInsert := map (row_UpdateAccountIDs accounts1) (rowsToInsert ingest)\<rparr>
            else (\<exists>dbAccounts2 db2. CreateAccounts addresses1 db1 = (Inr dbAccounts2, db2)
                   \<and> ingest' = ingest\<lparr>DB := db2,
                        rowsToInsert := map (row_UpdateAccountIDs (store_ids dbAccounts2 accounts1))
                                            (rowsToInsert ingest)\<rparr>))"
  using ok ne
  by (auto simp: UpdateAccountIDs_def c Let_def split: prod.splits sum.splits if_splits)

text \<open>
  Claim C6. Let the store hold at most one account record per address, none of them
  with identifier 0 (the writer reads 0 as "no record"; the store allocates its
  identifiers from 1). After a successful \<open>UpdateAccountIDs\<close>, one address-to-identifier
  map has been pushed into every buffered row, and for every address that a row
  references the map holds the identifier of that address's record in the store. The
  records created are exactly those of the referenced addresses that had no record, so
  the account table still holds one record per address; when every referenced address
  already has a record, no record is created.
\<close>

theorem UpdateAccountIDs_resolution:
  assumes d: "distinct (map acc_Address (history_accounts (DB ingest)))"
    and nz: "\<forall>a\<in>set (history_accounts (DB ingest)). acc_ID a \<noteq> 0"
    and perm: "\<forall>ks. mset (ra ks) = mset ks"
    and ok: "UpdateAccountIDs ra ingest = (None, ingest')"
  shows "\<exists>accounts created.
      rowsToInsert ingest' = map (row_UpdateAccountIDs accounts) (rowsToInsert ingest)
    \<and> (\<forall>address\<in>set (referenced_addresses (rowsToInsert ingest)).
         \<exists>a\<in>set (history_accounts (DB ingest')).
            acc_Address a = address \<and> acc_ID a = lookup_id accounts address)
    \<and> history_accounts (DB ingest') = history_accounts (DB ingest) @ created
    \<and> distinct (map acc_Address (history_accounts (DB ingest')))
    \<and> set (map acc_Address created) =
        set (referenced_addresses (rowsToInsert ingest))
          - acc_Address ` set (history_accounts (DB ingest))"
proof -
  let ?rows = "rowsToInsert ingest"
  let ?A = "set (referenced_addresses ?rows)"
  let ?old = "history_accounts (DB ingest)"
  from collect_addresses_result[of ?rows] obtain addresses where
    c: "collect_addresses ?rows = (map (\<lambda>a. (a, 0)) addresses, addresses)"
    and da: "distinct addresses" and sa: "set addresses = ?A" by blast
  let ?acc0 = "map (\<lambda>a. (a, 0::int64)) addresses"
  show ?thesis
  proof (cases "addresses = []")
    case True
    have same: "ingest' = ingest"
      using ok UpdateAccountIDs_no_addresses[OF c[unfolded True], of ra] by (simp add: True)
    have "\<forall>r\<in>set ?rows. GetAddresses r = []"
      using sa True by (auto simp: referenced_addresses_def)
    then have id: "map (row_UpdateAccountIDs []) ?rows = ?rows"
      by (simp add: map_idI row_UpdateAccountIDs_no_addresses)
    show ?thesis
      using id sa True d unfolding same
      by (intro exI[of _ "[]"]) auto
  next
    case False
    from UpdateAccountIDs_unfold[OF c False ok] obtain dbAccounts db1 where
      q: "AccountsByAddresses addresses (DB ingest) = (Inr dbAccounts, db1)"
      and rest: "(let accounts1 = store_ids dbAccounts ?acc0;
             addresses1 = filter (\<lambda>address. lookup_id accounts1 address = 0)
                                 (ra (map fst accounts1))
         in if addresses1 = []
            then ingest' = ingest\<lparr>DB := db1,
                     rowsToInsert := map (row_UpdateAccountIDs accounts1) (rowsToInsert ingest)\<rparr>
            else (\<exists>dbAccounts2 db2. CreateAccounts addresses1 db1 = (Inr dbAccounts2, db2)
                   \<and> ingest' = ingest\<lparr>DB := db2,
                        rowsToInsert := map (row_UpdateAccountIDs (store_ids dbAccounts2 accounts1))
                                            (rowsToInsert ingest)\<rparr>))"
      by blast
    from AccountsByAddresses_result[OF q] have
      dbA: "dbAccounts = filter (\<lambda>a. acc_Address a \<in> set addresses) ?old"
      and h1: "history_accounts db1 = ?old" by auto
    let ?acc1 = "store_ids dbAccounts ?acc0"
    let ?addresses1 = "filter (\<lambda>address. lookup_id ?acc1 address = 0) (ra (map fst ?acc1))"
    have ddb: "distinct (map acc_Address dbAccounts)"
      unfolding dbA using d by (simp add: distinct_map_filter)
    have keys0: "map fst ?acc0 = addresses" by (simp add: comp_def)
    have k1: "set (map fst ?acc1) = ?A"
      unfolding store_ids_keys keys0 using sa dbA by auto
    have dk1: "distinct (map fst ?acc1)"
      by (rule store_ids_distinct) (simp add: comp_def da)
    have l0: "\<And>a. lookup_id ?acc0 a = 0"
      by (auto simp: lookup_id_def split: option.splits dest: map_of_SomeD)
    have l_old: "\<exists>x\<in>set ?old. acc_Address x = a \<and> lookup_id ?acc1 a = acc_ID x"
      if "a \<in> ?A" "a \<in> acc_Address ` set ?old" for a
    proof -
      from that obtain x where x: "x \<in> set ?old" "acc_Address x = a" by auto
      with that sa have "x \<in> set dbAccounts" unfolding dbA by simp
      from store_ids_in[OF ddb this] x show ?thesis by auto
    qed
    have l_new: "lookup_id ?acc1 a = 0" if "a \<notin> acc_Address ` set ?old" for a
    proof -
      from that have "a \<notin> acc_Address ` set dbAccounts" unfolding dbA by auto
      from store_ids_notin[OF this] l0 show ?thesis by simp
    qed
    have p: "mset (ra (map fst ?acc1)) = mset (map fst ?acc1)" using perm by blast
    have dr: "distinct (ra (map fst ?acc1))" using dk1 mset_eq_imp_distinct_iff[OF p] by simp
    have sr: "set (ra (map fst ?acc1)) = ?A" using mset_eq_setD[OF p] k1 by simp
    have s1: "set ?addresses1 = ?A - acc_Address ` set ?old"
    proof (intro set_eqI iffI)
      fix a assume "a \<in> set ?addresses1"
      then have a: "a \<in> ?A" "lookup_id ?acc1 a = 0" using sr by auto
      have "a \<notin> acc_Address ` set ?old"
      proof
        assume "a \<in> acc_Address ` set ?old"
        from l_old[OF a(1) this] a(2) nz show False by auto
      qed
      with a(1) show "a \<in> ?A - acc_Address ` set ?old" by simp
    next
      fix a assume "a \<in> ?A - acc_Address ` set ?old"
      then show "a \<in> set ?addresses1" using sr l_new by auto
    qed
    have d1: "distinct ?addresses1" using dr by simp
    show ?thesis
    proof (cases "?addresses1 = []")
      case True
      with rest have i': "ingest' = ingest\<lparr>DB := db1,
            rowsToInsert := map (row_UpdateAccountIDs ?acc1) (rowsToInsert ingest)\<rparr>"
        by (simp add: Let_def)
      have sub: "?A \<subseteq> acc_Address ` set ?old" using s1 True by auto
      have res1: "\<exists>x\<in>set ?old. acc_Address x = a \<and> acc_ID x = lookup_id ?acc1 a"
        if a: "a \<in> ?A" for a
      proof -
        from a sub have "a \<in> acc_Address ` set ?old" by blast
        from l_old[OF a this] show ?thesis by auto
      qed
      show ?thesis
        unfolding i' using h1 d sub res1
        by (intro exI[of _ ?acc1] exI[of _ "[]"]) auto
    next
      case False
      with rest obtain created db2 where
        cr: "CreateAccounts ?addresses1 db1 = (Inr created, db2)"
        and i': "ingest' = ingest\<lparr>DB := db2,
            rowsToInsert := map (row_UpdateAccountIDs (store_ids created ?acc1))
                                (rowsToInsert ingest)\<rparr>"
        by (auto simp: Let_def)
      from CreateAccounts_result[OF cr] have
        mc: "map acc_Address created = ?addresses1"
        and h2: "history_accounts db2 = ?old @ created" using h1 by auto
      let ?acc2 = "store_ids created ?acc1"
      have dc: "distinct (map acc_Address created)" unfolding mc by (rule d1)
      have sc: "acc_Address ` set created = ?A - acc_Address ` set ?old"
        using mc s1 by (metis set_map)
      have dall: "distinct (map acc_Address (?old @ created))"
        using d dc sc by auto
      have res: "\<exists>x\<in>set (?old @ created). acc_Address x = a \<and> acc_ID x = lookup_id ?acc2 a"
        if a: "a \<in> ?A" for a
      proof (cases "a \<in> acc_Address ` set ?old")
        case True
        from l_old[OF a True] obtain x where x: "x \<in> set ?old" "acc_Address x = a"
          "lookup_id ?acc1 a = acc_ID x" by blast
        have "a \<notin> acc_Address ` set created" using sc True by simp
        from store_ids_notin[OF this] x show ?thesis by auto
      next
        case False
        with a sc have "a \<in> acc_Address ` set created" by simp
        then obtain x where x: "x \<in> set created" "acc_Address x = a" by auto
        from store_ids_in[OF dc x(1)] x show ?thesis by auto
      qed
      show ?thesis
        unfolding i' using h2 dall sc res
        by (intro exI[of _ ?acc2] exI[of _ created]) auto
    qed
  qed
qed









lemma Flush_rest_empty: "Flush_rest ts [] ingest = (None, ingest)"
  by (induction ts) (simp_all add: count_of_def)

lemma Flush_empty_buffer:
  "rowsToInsert ingest = [] \<Longrightarrow>
   Flush ra rt ingest =
     (case commit ingest of (Some err, i4) \<Rightarrow> (Some err, i4) | (None, i4) \<Rightarrow> Start i4)"
  by (simp add: Flush_def UpdateAccountIDs_def collect_addresses_def Flush_rest_empty
      split: prod.splits option.splits)

lemma Flush_success:
  assumes "Flush ra rt ingest = (None, ingest')"
  shows "\<exists>i3 i4. commit i3 = (None, i4) \<and> Start i4 = (None, ingest')"
  using assms
  by (auto simp: Flush_def split: prod.splits option.splits)

text \<open>
  Claim C7. With an empty row buffer \<open>Flush\<close> is \<open>commit\<close> followed, when the commit
  succeeds, by \<open>Start\<close>: no insert statement is handed to \<open>Exec\<close>, and when \<open>Flush\<close>
  succeeds the log of the store has grown by exactly the commit and the begin of the
  next transaction. In general, a successful \<open>Flush\<close> ends with a successful commit
  followed by a successful \<open>Start\<close> whose result is the state of the writer: the builders
  map has exactly the seven table names as keys, each with the builder of that table
  (its columns set, no tuple), and the row buffer is empty.
\<close>

theorem Flush_commits_and_restarts:
  "(rowsToInsert ingest = [] \<longrightarrow>
      Flush ra rt ingest =
        (case commit ingest of (Some err, i4) \<Rightarrow> (Some err, i4) | (None, i4) \<Rightarrow> Start i4)
    \<and> executed (DB (snd (Flush ra rt ingest))) = executed (DB ingest)
    \<and> (fst (Flush ra rt ingest) = None \<longrightarrow>
         calls (DB (snd (Flush ra rt ingest))) =
           calls (DB ingest) @ [(CallCommit, None), (CallBegin, None)]))
   \<and> (Flush ra rt ingest0 = (None, ingest') \<longrightarrow>
      (\<exists>i3 i4. commit i3 = (None, i4) \<and> Start i4 = (None, ingest')
          \<and> (\<exists>log. calls (DB ingest') = log @ [(CallCommit, None), (CallBegin, None)]))
    \<and> builders ingest' = fresh_builders
    \<and> dom (builders ingest') = set table_names
    \<and> distinct table_names \<and> length table_names = 7
    \<and> rowsToInsert ingest' = []
    \<and> (\<forall>t b. builders ingest' t = Some b \<longrightarrow>
          into b = t \<and> columns b \<noteq> [] \<and> tuples b = []))"
proof (intro conjI impI allI)
  assume e: "rowsToInsert ingest = []"
  obtain r4 i4 where c: "commit ingest = (r4, i4)" by force
  obtain r5 i5 where s: "Start i4 = (r5, i5)" by force
  note cf = commit_frame[OF c]
  note sf = Start_frame[OF s]
  show F: "Flush ra rt ingest =
        (case commit ingest of (Some err, i4) \<Rightarrow> (Some err, i4) | (None, i4) \<Rightarrow> Start i4)"
    by (rule Flush_empty_buffer[OF e])
  show "executed (DB (snd (Flush ra rt ingest))) = executed (DB ingest)"
    unfolding F c using cf(4) sf(1) s by (cases r4) simp_all
  show "calls (DB (snd (Flush ra rt ingest))) =
           calls (DB ingest) @ [(CallCommit, None), (CallBegin, None)]"
    if "fst (Flush ra rt ingest) = None"
    using that unfolding F c using cf(5) sf(2) s by (cases r4) simp_all
next
  assume ok: "Flush ra rt ingest0 = (None, ingest')"
  from Flush_success[OF ok] obtain i3 i4 where
    c: "commit i3 = (None, i4)" and s: "Start i4 = (None, ingest')" by blast
  note cf = commit_frame[OF c]
  note sf = Start_frame[OF s]
  have log: "calls (DB ingest') = calls (DB i3) @ [(CallCommit, None), (CallBegin, None)]"
    using cf(5) sf(2) by simp
  show "\<exists>i3 i4. commit i3 = (None, i4) \<and> Start i4 = (None, ingest')
          \<and> (\<exists>log. calls (DB ingest') = log @ [(CallCommit, None), (CallBegin, None)])"
    using c s log by blast
  show b: "builders ingest' = fresh_builders" using sf(3) by simp
  show "dom (builders ingest') = set table_names"
    unfolding b by (rule dom_fresh_builders)
  show "distinct table_names" by (rule distinct_table_names)
  show "length table_names = 7" by (simp add: table_names_def)
  show "rowsToInsert ingest' = []" using sf(3) by simp
  fix t f
  assume "builders ingest' t = Some f"
  then have f: "fresh_builders t = Some f" unfolding b .
  show "into f = t" using fresh_builders_Some[OF f] by simp
  show "columns f \<noteq> []" by (rule fresh_builders_columns[OF f])
  show "tuples f = []" using fresh_builders_Some[OF f] by simp
qed

text \<open>
  Claim C9. After a successful \<open>Start\<close>, and so after a successful \<open>Flush\<close>, the
  builders map has an entry for each of the seven table names, hence for the table of
  every row. For any writer with these builders (the emitters leave the builders alone)
  and any buffered rows, the first loop of \<open>Flush\<close> never returns the error of the
  missing builder: the errors it returns are wrapped store errors.
\<close>

theorem builders_exist_after_Start:
  assumes "Start ingest = (None, ingest1) \<or> Flush ra rt ingest = (None, ingest1)"
  shows "set table_names \<subseteq> dom (builders ingest1)
     \<and> (\<forall>row. GetTableName row \<in> dom (builders ingest1))
     \<and> (\<forall>ingest2 rows t. builders ingest2 = builders ingest1 \<longrightarrow>
           fst (Flush_inserts rows [] ingest2) \<noteq>
             Some (Error (t @ '' insert builder does not exist'')))"
proof -
  have b: "builders ingest1 = fresh_builders"
  proof -
    from assms consider "Start ingest = (None, ingest1)"
      | i3 i4 where "commit i3 = (None, i4)" "Start i4 = (None, ingest1)"
      using Flush_success by blast
    then show ?thesis
      using Start_frame(3) by cases blast+
  qed
  have no_error: "fst (Flush_inserts rows [] ingest2) \<noteq>
             Some (Error (t @ '' insert builder does not exist''))"
    if b2: "builders ingest2 = builders ingest1" for ingest2 rows t
  proof -
    have ok: "pending_ok [] ingest2" using b b2 by (intro pending_ok_fresh) simp
    obtain r pc' ingest' where f: "Flush_inserts rows [] ingest2 = (r, pc', ingest')"
      by (metis prod_cases3)
    from Flush_inserts_inv[OF ok f] have "\<forall>e. r = Some e \<longrightarrow> (\<exists>e' m. e = Wrap e' m)"
      by (elim exE conjE)
    then show ?thesis unfolding f by auto
  qed
  show ?thesis
    unfolding b using no_error[unfolded b] GetTableName_table_names
    by (auto simp: dom_fresh_builders)
qed

subsection \<open>The properties at concrete inputs\<close>


lemma example_started: "Start (NewIngestion example_store) = (None, started_writer)"
  by (simp add: started_writer_def Start_def Begin_def issue_def NewIngestion_def
      example_store_def)

theorem builders_exist_after_Start_witness:
  "Start (NewIngestion example_store) = (None, started_writer)
   \<and> EffectsTableName \<in> dom (builders started_writer)
   \<and> GetTableName example_effect \<in> dom (builders started_writer)
   \<and> fst (Flush_inserts (rowsToInsert example_buffered) [] example_buffered) \<noteq>
        Some (Error (EffectsTableName @ '' insert builder does not exist''))"
proof -
  have b: "builders example_buffered = builders started_writer"
    by (simp add: example_buffered_eq)
  from builders_exist_after_Start[OF disjI1[OF example_started]] b
  show ?thesis
    by (simp add: example_started table_names_def)
qed


lemma example_Flush_ok: "fst (Flush (\<lambda>ks. ks) (\<lambda>ks. ks) example_buffered) = None"
  by (rule example_Flush[THEN conjunct1])





theorem UpdateAccountIDs_resolution_witness:
  "fst (UpdateAccountIDs (\<lambda>ks. ks) example_buffered) = None
   \<and> history_accounts (DB example_buffered) = [\<lparr>acc_ID = 1, acc_Address = ''GALICE''\<rparr>]
   \<and> referenced_addresses (rowsToInsert example_buffered) = [''GALICE'', ''GALICE'', ''GBOB'']
   \<and> history_accounts (DB (snd (UpdateAccountIDs (\<lambda>ks. ks) example_buffered))) =
       [\<lparr>acc_ID = 1, acc_Address = ''GALICE''\<rparr>, \<lparr>acc_ID = 2, acc_Address = ''GBOB''\<rparr>]
   \<and> (\<exists>accounts created.
        rowsToInsert (snd (UpdateAccountIDs (\<lambda>ks. ks) example_buffered)) =
          map (row_UpdateAccountIDs accounts) (rowsToInsert example_buffered)
      \<and> (\<forall>address\<in>set (referenced_addresses (rowsToInsert example_buffered)).
           \<exists>a\<in>set (history_accounts (DB (snd (UpdateAccountIDs (\<lambda>ks. ks) example_buffered)))).
              acc_Address a = address \<and> acc_ID a = lookup_id accounts address)
      \<and> history_accounts (DB (snd (UpdateAccountIDs (\<lambda>ks. ks) example_buffered))) =
          history_accounts (DB example_buffered) @ created
      \<and> distinct (map acc_Address
          (history_accounts (DB (snd (UpdateAccountIDs (\<lambda>ks. ks) example_buffered)))))
      \<and> set (map acc_Address created) =
          set (referenced_addresses (rowsToInsert example_buffered))
            - acc_Address ` set (history_accounts (DB example_buffered)))"
proof -
  have h: "history_accounts (DB example_buffered) = [\<lparr>acc_ID = 1, acc_Address = ''GALICE''\<rparr>]"
    by (simp add: example_buffered_eq started_writer_eq example_store_def)
  have d: "distinct (map acc_Address (history_accounts (DB example_buffered)))"
    by (simp add: h)
  have nz: "\<forall>a\<in>set (history_accounts (DB example_buffered)). acc_ID a \<noteq> 0"
    by (simp add: h)
  have perm: "\<forall>ks. mset ((\<lambda>ks. ks) ks) = mset ks" by simp
  have ok: "UpdateAccountIDs (\<lambda>ks. ks) example_buffered =
      (None, snd (UpdateAccountIDs (\<lambda>ks. ks) example_buffered))"
    by (simp add: example_resolved)
  have r: "referenced_addresses (rowsToInsert example_buffered) = [''GALICE'', ''GALICE'', ''GBOB'']"
    by (simp add: example_buffered_eq referenced_addresses_def)
  have a: "history_accounts (DB (snd (UpdateAccountIDs (\<lambda>ks. ks) example_buffered))) =
       [\<lparr>acc_ID = 1, acc_Address = ''GALICE''\<rparr>, \<lparr>acc_ID = 2, acc_Address = ''GBOB''\<rparr>]"
    by (simp add: example_resolved)
  have f: "fst (UpdateAccountIDs (\<lambda>ks. ks) example_buffered) = None"
    by (simp add: example_resolved)
  from f h r a UpdateAccountIDs_resolution[OF d nz perm ok] show ?thesis by (intro conjI)
qed

theorem Flush_commits_and_restarts_witness:
  "rowsToInsert started_writer = []
   \<and> fst (Flush (\<lambda>ks. ks) (\<lambda>ks. ks) started_writer) = None
   \<and> executed (DB (snd (Flush (\<lambda>ks. ks) (\<lambda>ks. ks) started_writer))) = []
   \<and> calls (DB (snd (Flush (\<lambda>ks. ks) (\<lambda>ks. ks) started_writer))) =
       [(CallBegin, None), (CallCommit, None), (CallBegin, None)]
   \<and> fst (Flush (\<lambda>ks. ks) (\<lambda>ks. ks) example_buffered) = None
   \<and> builders (snd (Flush (\<lambda>ks. ks) (\<lambda>ks. ks) example_buffered)) = fresh_builders
   \<and> dom (builders (snd (Flush (\<lambda>ks. ks) (\<lambda>ks. ks) example_buffered))) =
       set table_names
   \<and> length table_names = 7
   \<and> rowsToInsert (snd (Flush (\<lambda>ks. ks) (\<lambda>ks. ks) example_buffered)) = []"
proof -
  have e: "rowsToInsert started_writer = []" by (simp add: started_writer_eq)
  have ok2: "Flush (\<lambda>ks. ks) (\<lambda>ks. ks) example_buffered =
      (None, snd (Flush (\<lambda>ks. ks) (\<lambda>ks. ks) example_buffered))"
    using example_Flush_ok by (simp add: prod_eq_iff)
  note c1 = Flush_commits_and_restarts[where ingest=started_writer
      and ra="\<lambda>ks. ks" and rt="\<lambda>ks. ks" and ingest0=example_buffered
      and ingest'="snd (Flush (\<lambda>ks. ks) (\<lambda>ks. ks) example_buffered)",
      THEN conjunct1, THEN mp, OF e]
  note c2 = Flush_commits_and_restarts[where ingest=started_writer
      and ra="\<lambda>ks. ks" and rt="\<lambda>ks. ks" and ingest0=example_buffered
      and ingest'="snd (Flush (\<lambda>ks. ks) (\<lambda>ks. ks) example_buffered)",
      THEN conjunct2, THEN mp, OF ok2]
  have ok1: "fst (Flush (\<lambda>ks. ks) (\<lambda>ks. ks) started_writer) = None"
    by (simp only: c1[THEN conjunct1])
       (simp add: commit_def Commit_def issue_def Start_def Begin_def started_writer_eq
          example_store_def)
  have x: "executed (DB (snd (Flush (\<lambda>ks. ks) (\<lambda>ks. ks) started_writer))) = []"
    using c1[THEN conjunct2, THEN conjunct1]
    by (simp add: started_writer_eq executed_def example_store_def)
  have l: "calls (DB (snd (Flush (\<lambda>ks. ks) (\<lambda>ks. ks) started_writer))) =
       [(CallBegin, None), (CallCommit, None), (CallBegin, None)]"
    using c1[THEN conjunct2, THEN conjunct2, THEN mp, OF ok1]
    by (simp add: started_writer_eq example_store_def)
  from e ok1 x l example_Flush_ok c2[THEN conjunct2, THEN conjunct1]
    c2[THEN conjunct2, THEN conjunct2, THEN conjunct1]
    c2[THEN conjunct2, THEN conjunct2, THEN conjunct2, THEN conjunct2, THEN conjunct1]
    c2[THEN conjunct2, THEN conjunct2, THEN conjunct2, THEN conjunct2, THEN conjunct2,
       THEN conjunct1]
  show ?thesis by (intro conjI)
qed

end
